theory Spec2Isabelle
  imports Complex_Main "HOL-Library.AList"
begin

section \<open>float64 values\<close>

text \<open>
  The values of the program are \<^verbatim>\<open>float64\<close>. A finite value is modelled as a
  real number, so that arithmetic on finite values is exact: rounding, overflow and the
  sign of zero are not modelled. The two infinities and NaN are values of their own,
  since the program can reach them with finite numbers (a division by zero, a parsed
  string out of range), and arithmetic with them follows IEEE 754 as Go's does.
\<close>

datatype float64 = Finite real | PosInf | NegInf | NaN

instantiation float64 :: "{zero, one, plus, uminus, minus, times, divide}"
begin

definition zero_float64 :: float64 where
  "zero_float64 = Finite 0"

definition one_float64 :: float64 where
  "one_float64 = Finite 1"

fun plus_float64 :: "float64 \<Rightarrow> float64 \<Rightarrow> float64" where
  "plus_float64 (Finite a) (Finite b) = Finite (a + b)"
| "plus_float64 NaN y = NaN"
| "plus_float64 x NaN = NaN"
| "plus_float64 PosInf NegInf = NaN"
| "plus_float64 NegInf PosInf = NaN"
| "plus_float64 PosInf y = PosInf"
| "plus_float64 x PosInf = PosInf"
| "plus_float64 NegInf y = NegInf"
| "plus_float64 x NegInf = NegInf"

fun uminus_float64 :: "float64 \<Rightarrow> float64" where
  "uminus_float64 (Finite a) = Finite (- a)"
| "uminus_float64 PosInf = NegInf"
| "uminus_float64 NegInf = PosInf"
| "uminus_float64 NaN = NaN"

definition minus_float64 :: "float64 \<Rightarrow> float64 \<Rightarrow> float64" where
  "minus_float64 x y = x + (- y)"

fun times_float64 :: "float64 \<Rightarrow> float64 \<Rightarrow> float64" where
  "times_float64 (Finite a) (Finite b) = Finite (a * b)"
| "times_float64 NaN y = NaN"
| "times_float64 x NaN = NaN"
| "times_float64 (Finite a) y = (if a = 0 then NaN else if 0 < a then y else - y)"
| "times_float64 x (Finite b) = (if b = 0 then NaN else if 0 < b then x else - x)"
| "times_float64 PosInf y = y"
| "times_float64 NegInf y = - y"

fun divide_float64 :: "float64 \<Rightarrow> float64 \<Rightarrow> float64" where
  "divide_float64 (Finite a) (Finite b) =
     (if b = 0 then (if a = 0 then NaN else if 0 < a then PosInf else NegInf)
      else Finite (a / b))"
| "divide_float64 NaN y = NaN"
| "divide_float64 x NaN = NaN"
| "divide_float64 (Finite a) y = Finite 0"
| "divide_float64 x (Finite b) = (if 0 \<le> b then x else - x)"
| "divide_float64 x y = NaN"

instance ..

end

instantiation float64 :: inverse
begin

definition inverse_float64 :: "float64 \<Rightarrow> float64" where
  "inverse_float64 x = divide (Finite 1) x"

instance ..

end

text \<open>
  Addition is associative and commutative with the neutral element zero, also with the
  infinities and NaN; so sums of lists and numerals are available.
\<close>

instance float64 :: comm_monoid_add
proof (standard, goal_cases)
  case (1 x y z)
  show ?case by (cases x; cases y; cases z; simp)
next
  case (2 x y)
  show ?case by (cases x; cases y; simp)
next
  case (3 x)
  show ?case by (cases x; simp add: zero_float64_def)
qed

instance float64 :: numeral ..

section \<open>The time-series vector model\<close>

text \<open>
  The cost model works on \<^verbatim>\<open>[]*Vector\<close>, a slice of pointers to
  \<^verbatim>\<open>Vector{Timestamp, Value float64}\<close>. A series is the list of the vectors its
  pointers reach. Timestamps are the sample times of the metrics backend and are
  modelled as reals: a timestamp is finite.
\<close>

record Vector =
  Timestamp :: real
  Value :: float64

text \<open>
  \<^verbatim>\<open>math.Round\<close> rounds to the nearest integer, halves away from zero.
\<close>

definition goRound :: "real \<Rightarrow> real" where
  "goRound x = (if x < 0 then - of_int \<lfloor>- x + 1 / 2\<rfloor> else of_int \<lfloor>x + 1 / 2\<rfloor>)"

text \<open>The expression \<^verbatim>\<open>math.Round(t/10) * 10\<close> that every loop of the file applies.\<close>

definition snap :: "real \<Rightarrow> real" where
  "snap t = goRound (t / 10) * 10"

subsection \<open>addVectors\<close>

text \<open>
  The body of the loops of \<^verbatim>\<open>addVectors\<close> that run when one argument is empty:
  a vector whose timestamp is zero is left alone (\<^verbatim>\<open>continue\<close>), any other
  has its timestamp overwritten in place.
\<close>

definition snapInPlace :: "Vector \<Rightarrow> Vector" where
  "snapInPlace v = (if Timestamp v = 0 then v else v\<lparr>Timestamp := snap (Timestamp v)\<rparr>)"

text \<open>
  The loop over \<^verbatim>\<open>req\<close> in the general case: it fills \<^verbatim>\<open>reqMap\<close>
  and appends every snapped timestamp to \<^verbatim>\<open>timestamps\<close>.
\<close>

fun reqLoop :: "Vector list \<Rightarrow> (real \<rightharpoonup> float64) \<Rightarrow> real list \<Rightarrow> (real \<rightharpoonup> float64) \<times> real list" where
  "reqLoop [] reqMap timestamps = (reqMap, timestamps)"
| "reqLoop (reqV # rest) reqMap timestamps =
     (if Timestamp reqV = 0 then reqLoop rest reqMap timestamps
      else let t = snap (Timestamp reqV)
           in reqLoop rest (reqMap(t \<mapsto> Value reqV)) (timestamps @ [t]))"

text \<open>
  The loop over \<^verbatim>\<open>used\<close>: it fills \<^verbatim>\<open>usedMap\<close> and appends a snapped
  timestamp only when \<^verbatim>\<open>reqMap\<close> has no entry for it.
\<close>

fun usedLoop :: "(real \<rightharpoonup> float64) \<Rightarrow> Vector list \<Rightarrow> (real \<rightharpoonup> float64) \<Rightarrow> real list \<Rightarrow> (real \<rightharpoonup> float64) \<times> real list" where
  "usedLoop reqMap [] usedMap timestamps = (usedMap, timestamps)"
| "usedLoop reqMap (usedV # rest) usedMap timestamps =
     (if Timestamp usedV = 0 then usedLoop reqMap rest usedMap timestamps
      else let t = snap (Timestamp usedV)
           in usedLoop reqMap rest (usedMap(t \<mapsto> Value usedV))
                (if reqMap t = None then timestamps @ [t] else timestamps))"

text \<open>
  The body of the last loop: the vector allocated for timestamp \<open>t\<close>. When neither
  map has the timestamp the value keeps Go's zero value.
\<close>

definition allocationVector :: "(real \<rightharpoonup> float64) \<Rightarrow> (real \<rightharpoonup> float64) \<Rightarrow> real \<Rightarrow> Vector" where
  "allocationVector reqMap usedMap t =
     (case (reqMap t, usedMap t) of
        (Some rv, Some uv) \<Rightarrow> \<lparr>Timestamp = t, Value = rv + uv\<rparr>
      | (Some rv, None) \<Rightarrow> \<lparr>Timestamp = t, Value = rv\<rparr>
      | (None, Some uv) \<Rightarrow> \<lparr>Timestamp = t, Value = uv\<rparr>
      | (None, None) \<Rightarrow> \<lparr>Timestamp = t, Value = 0\<rparr>)"

text \<open>
  \<^verbatim>\<open>addVectors(req, used)\<close> writes through the pointers of its arguments, so the
  model returns three series: the slice the function returns, and the contents of
  \<^verbatim>\<open>req\<close> and of \<^verbatim>\<open>used\<close> after the call. When one argument is empty
  the returned slice is the other argument itself. The two arguments are taken to
  share no vector.
\<close>

definition addVectors :: "Vector list \<Rightarrow> Vector list \<Rightarrow> Vector list \<times> Vector list \<times> Vector list" where
  "addVectors req used =
     (if req = [] then (map snapInPlace used, req, map snapInPlace used)
      else if used = [] then (map snapInPlace req, map snapInPlace req, used)
      else
        let (reqMap, timestamps1) = reqLoop req Map.empty [];
            (usedMap, timestamps) = usedLoop reqMap used Map.empty timestamps1
        in (map (allocationVector reqMap usedMap) (sort timestamps),
            map snapInPlace req, map snapInPlace used))"

text \<open>The slice \<^verbatim>\<open>addVectors\<close> returns.\<close>

definition merged :: "Vector list \<Rightarrow> Vector list \<Rightarrow> Vector list" where
  "merged req used = fst (addVectors req used)"

text \<open>
  The grid points a series contributes in the general case: the snapped timestamps of
  its vectors whose timestamp is not zero, in order.
\<close>

definition gridPoints :: "Vector list \<Rightarrow> real list" where
  "gridPoints vs = map (\<lambda>v. snap (Timestamp v)) (filter (\<lambda>v. Timestamp v \<noteq> 0) vs)"

text \<open>
  What one series contributes at a grid point: the value of its first vector with a
  non-zero timestamp that snaps to the point, if there is one.
\<close>

definition valueAt :: "Vector list \<Rightarrow> real \<rightharpoonup> float64" where
  "valueAt vs = map_of (map (\<lambda>v. (snap (Timestamp v), Value v)) (filter (\<lambda>v. Timestamp v \<noteq> 0) vs))"

text \<open>
  The value expected at a grid point of the merge of two series: the sum when both
  contribute, the single contribution otherwise.
\<close>

definition mergedValue :: "Vector list \<Rightarrow> Vector list \<Rightarrow> real \<Rightarrow> float64" where
  "mergedValue a b t =
     (case (valueAt a t, valueAt b t) of
        (Some x, Some y) \<Rightarrow> x + y
      | (Some x, None) \<Rightarrow> x
      | (None, Some y) \<Rightarrow> y
      | (None, None) \<Rightarrow> 0)"

section \<open>Cost records, prices and aggregations\<close>

text \<open>
  A run-time panic of the Go program is a value of the model: every function that can
  dereference a nil pointer or index a slice out of range returns \<open>panic + result\<close>.
\<close>

datatype panic = NilPointerDereference | IndexOutOfRange

text \<open>
  Modelled from the spec: the declarations of the types \<^verbatim>\<open>CostData\<close> (the cost
  record of the specification), \<^verbatim>\<open>PersistentVolumeClaimData\<close>,
  \<^verbatim>\<open>cloud.Node\<close>, \<^verbatim>\<open>cloud.PV\<close> and \<^verbatim>\<open>cloud.CustomPricing\<close>
  are outside the two source files; the records below hold the fields the two files
  read, under the names they are read by. A pointer that may be nil is an
  \<open>option\<close>; the map \<^verbatim>\<open>Labels\<close>, which may be nil as well, is an association
  list read with \<open>map_of\<close>. \<open>IsSpot\<close> stands for the answer of the method \<^verbatim>\<open>IsSpot()\<close>.
  Fields of \<^verbatim>\<open>CostData\<close> and \<^verbatim>\<open>cloud.Node\<close> whose names
  \<^verbatim>\<open>Aggregation\<close> or \<^verbatim>\<open>CustomPricing\<close> use as well carry the
  prefix \<open>cd\<close> or \<open>Node\<close>.
\<close>

record Node =
  VCPUCost :: string
  NodeRAMCost :: string
  NodeGPUCost :: string
  StorageCost :: string
  VCPU :: string
  RAMBytes :: string
  NodeGPU :: string
  IsSpot :: bool

record PV =
  Cost :: string

record PersistentVolumeClaimData =
  Claim :: string
  VolumeName :: string
  Volume :: "PV option"
  Values :: "Vector list"

record CostData =
  Name :: string
  PodName :: string
  NodeName :: string
  NodeData :: "Node option"
  Namespace :: string
  Deployments :: "string list"
  Services :: "string list"
  cdCPUAllocation :: "Vector list"
  cdRAMAllocation :: "Vector list"
  GPUReq :: "Vector list"
  PVCData :: "PersistentVolumeClaimData list"
  Labels :: "(string \<times> string) list option"
  ClusterID :: string

record CustomPricing =
  CPU :: string
  SpotCPU :: string
  RAM :: string
  SpotRAM :: string
  GPU :: string
  SpotGPU :: string
  Storage :: string

text \<open>
  What the functions ask of the \<^verbatim>\<open>cloud.Provider\<close>: the result of
  \<^verbatim>\<open>cp.GetConfig()\<close> (\<open>None\<close> when it returns an error) and the answer of
  \<^verbatim>\<open>cloud.CustomPricesEnabled(cp)\<close>. Both are taken to stay the same during one
  call of the functions below.
\<close>

record Provider =
  GetConfig :: "CustomPricing option"
  CustomPricesEnabled :: bool

record Aggregation =
  Aggregator :: string
  AggregatorSubField :: string
  Environment :: string
  Cluster :: string
  CPUAllocation :: "Vector list"
  CPUCostVector :: "Vector list"
  RAMAllocation :: "Vector list"
  RAMCostVector :: "Vector list"
  PVCostVector :: "Vector list"
  GPUAllocation :: "Vector list"
  GPUCostVector :: "Vector list"
  CPUCost :: float64
  RAMCost :: float64
  GPUCost :: float64
  PVCost :: float64
  NetworkCost :: float64
  SharedCost :: float64
  TotalCost :: float64

record SharedResourceInfo =
  ShareResources :: bool
  SharedNamespace :: "string \<rightharpoonup> bool"
  LabelSelectors :: "(string \<times> string) list"

subsection \<open>SharedResourceInfo\<close>

text \<open>
  \<^verbatim>\<open>IsSharedResource\<close>: the namespace is a key of \<^verbatim>\<open>SharedNamespace\<close>, or
  some selector's label is on the record with the selector's value. Reading a nil
  \<^verbatim>\<open>Labels\<close> map finds nothing.
\<close>

definition IsSharedResource :: "SharedResourceInfo \<Rightarrow> CostData \<Rightarrow> bool" where
  "IsSharedResource s costDatum =
     (if SharedNamespace s (Namespace costDatum) \<noteq> None then True
      else list_ex (\<lambda>(labelName, labelValue).
             case Labels costDatum of
               None \<Rightarrow> False
             | Some labels \<Rightarrow> map_of labels labelName = Some labelValue) (LabelSelectors s))"

text \<open>
  The last loop of \<^verbatim>\<open>NewSharedResourceInfo\<close> reads \<^verbatim>\<open>labelvalues[i]\<close> for
  every index of \<^verbatim>\<open>labelnames\<close>, and panics when \<^verbatim>\<open>labelvalues\<close> is the
  shorter slice.
\<close>

fun selectorsLoop :: "string list \<Rightarrow> string list \<Rightarrow> (string \<times> string) list \<Rightarrow> panic + (string \<times> string) list" where
  "selectorsLoop [] labelvalues selectors = Inr selectors"
| "selectorsLoop (n # labelnames) [] selectors = Inl IndexOutOfRange"
| "selectorsLoop (n # labelnames) (v # labelvalues) selectors =
     selectorsLoop labelnames labelvalues (AList.update n v selectors)"

definition NewSharedResourceInfo :: "bool \<Rightarrow> string list \<Rightarrow> string list \<Rightarrow> string list \<Rightarrow> panic + SharedResourceInfo" where
  "NewSharedResourceInfo shareResources sharedNamespaces labelnames labelvalues =
     (let namespaces = (foldl (\<lambda>m ns. m(ns \<mapsto> True)) Map.empty sharedNamespaces)(''kube-system'' \<mapsto> True)
      in case selectorsLoop labelnames labelvalues [] of
           Inl p \<Rightarrow> Inl p
         | Inr selectors \<Rightarrow>
             Inr \<lparr>ShareResources = shareResources, SharedNamespace = namespaces,
                  LabelSelectors = selectors\<rparr>)"

subsection \<open>getPriceVectors and totalVector\<close>

text \<open>
  What \<^verbatim>\<open>strconv.ParseFloat(s, 64)\<close> returns: the value a well-formed string
  denotes (an infinity or NaN for the strings that name them), a syntax error, or a
  range error for a well-formed numeral too large for a \<^verbatim>\<open>float64\<close>, with the
  sign of the numeral. Which string gives what is a parameter \<open>pf\<close> of the model.
\<close>

datatype parsed = Parsed float64 | ErrSyntax | ErrRange bool

text \<open>
  The number \<^verbatim>\<open>strconv.ParseFloat\<close> returns, which is what a call that drops the
  error, \<^verbatim>\<open>x, _ := strconv.ParseFloat(s, 64)\<close>, goes on with: zero next to a
  syntax error, and the infinity of the numeral's sign next to a range error
  (\<open>ErrRange True\<close> is the error of a positive numeral).
\<close>

definition parseFloat :: "(string \<Rightarrow> parsed) \<Rightarrow> string \<Rightarrow> float64" where
  "parseFloat pf s =
     (case pf s of
        Parsed x \<Rightarrow> x
      | ErrSyntax \<Rightarrow> 0
      | ErrRange positive \<Rightarrow> if positive then PosInf else NegInf)"

text \<open>
  Lines 191 to 213 of \<^verbatim>\<open>getPriceVectors\<close>: the price strings of the node, replaced
  by the custom prices when custom pricing is enabled and the configuration was read
  without error. The result is \<open>(cpuCostStr, ramCostStr, gpuCostStr, pvCostStr)\<close>.
\<close>

definition priceStrings :: "Provider \<Rightarrow> Node \<Rightarrow> string \<times> string \<times> string \<times> string" where
  "priceStrings cp node =
     (case GetConfig cp of
        Some customPricing \<Rightarrow>
          if CustomPricesEnabled cp then
            (if IsSpot node
             then (SpotCPU customPricing, SpotRAM customPricing, SpotGPU customPricing,
                   Storage customPricing)
             else (CPU customPricing, RAM customPricing, GPU customPricing,
                   Storage customPricing))
          else (VCPUCost node, NodeRAMCost node, NodeGPUCost node, StorageCost node)
      | None \<Rightarrow> (VCPUCost node, NodeRAMCost node, NodeGPUCost node, StorageCost node))"

text \<open>Lines 215 to 218: the four strings parsed, \<open>(cpuCost, ramCost, gpuCost, pvCost)\<close>.\<close>

definition unitPrices :: "(string \<Rightarrow> parsed) \<Rightarrow> Provider \<Rightarrow> Node \<Rightarrow> float64 \<times> float64 \<times> float64 \<times> float64" where
  "unitPrices pf cp node =
     (case priceStrings cp node of
        (cpuCostStr, ramCostStr, gpuCostStr, pvCostStr) \<Rightarrow>
          (parseFloat pf cpuCostStr, parseFloat pf ramCostStr, parseFloat pf gpuCostStr,
           parseFloat pf pvCostStr))"

text \<open>
  The loop over \<^verbatim>\<open>costDatum.PVCData\<close>: a claim without a volume adds no series;
  the price of a claim's volume is overridden whenever custom prices are enabled.
\<close>

fun pvcLoop :: "(string \<Rightarrow> parsed) \<Rightarrow> Provider \<Rightarrow> float64 \<Rightarrow> float64 \<Rightarrow> float64 \<Rightarrow> PersistentVolumeClaimData list \<Rightarrow> Vector list list" where
  "pvcLoop pf cp pvCost discount idleCoefficient [] = []"
| "pvcLoop pf cp pvCost discount idleCoefficient (pvcData # rest) =
     (case Volume pvcData of
        None \<Rightarrow> pvcLoop pf cp pvCost discount idleCoefficient rest
      | Some volume \<Rightarrow>
          (let cost = (if CustomPricesEnabled cp then pvCost else parseFloat pf (Cost volume))
           in map (\<lambda>val. \<lparr>Timestamp = snap (Timestamp val),
                          Value = (Value val / 1024 / 1024 / 1024) * cost * (1 - discount) * 1 / idleCoefficient\<rparr>)
                (Values pvcData)
              # pvcLoop pf cp pvCost discount idleCoefficient rest))"

text \<open>
  \<^verbatim>\<open>getPriceVectors\<close> reads \<^verbatim>\<open>costDatum.NodeData.VCPUCost\<close> first, with no
  nil check. It allocates every vector it returns.
\<close>

definition getPriceVectors :: "(string \<Rightarrow> parsed) \<Rightarrow> Provider \<Rightarrow> CostData \<Rightarrow> float64 \<Rightarrow> float64 \<Rightarrow> panic + (Vector list \<times> Vector list \<times> Vector list \<times> Vector list list)" where
  "getPriceVectors pf cp costDatum discount idleCoefficient =
     (case NodeData costDatum of
        None \<Rightarrow> Inl NilPointerDereference
      | Some node \<Rightarrow>
          (let (cpuCost, ramCost, gpuCost, pvCost) = unitPrices pf cp node;
               cpuv = map (\<lambda>val. \<lparr>Timestamp = snap (Timestamp val),
                                   Value = Value val * cpuCost * (1 - discount) * 1 / idleCoefficient\<rparr>)
                        (cdCPUAllocation costDatum);
               ramv = map (\<lambda>val. \<lparr>Timestamp = snap (Timestamp val),
                                   Value = (Value val / 1024 / 1024 / 1024) * ramCost * (1 - discount) * 1 / idleCoefficient\<rparr>)
                        (cdRAMAllocation costDatum);
               gpuv = map (\<lambda>val. \<lparr>Timestamp = snap (Timestamp val),
                                   Value = Value val * gpuCost * (1 - discount) * 1 / idleCoefficient\<rparr>)
                        (GPUReq costDatum);
               pvvs = pvcLoop pf cp pvCost discount idleCoefficient (PVCData costDatum)
           in Inr (cpuv, ramv, gpuv, pvvs)))"

definition totalVector :: "Vector list \<Rightarrow> float64" where
  "totalVector vectors = foldl (\<lambda>total vector. total + Value vector) 0 vectors"

text \<open>
  The four additions both callers of \<^verbatim>\<open>getPriceVectors\<close> make to their running
  total: the totals of the CPU, RAM and GPU series, then of every volume series.
\<close>

definition addTotals :: "float64 \<Rightarrow> Vector list \<times> Vector list \<times> Vector list \<times> Vector list list \<Rightarrow> float64" where
  "addTotals running vs =
     (case vs of (cpuv, ramv, gpuv, pvvs) \<Rightarrow>
        foldl (\<lambda>t pv. t + totalVector pv)
          (running + totalVector cpuv + totalVector ramv + totalVector gpuv) pvvs)"

subsection \<open>mergeVectors and aggregateDatum\<close>

text \<open>
  \<^verbatim>\<open>mergeVectors\<close> passes the three allocation series of the record to
  \<^verbatim>\<open>addVectors\<close> as \<^verbatim>\<open>req\<close>, so their vectors are overwritten in
  place; the model returns the record as the call leaves it, next to the aggregation.
  The prices are computed from the record after these writes. What
  \<^verbatim>\<open>addVectors\<close> writes into the series the aggregation held before is dropped:
  such a series was returned by an earlier \<^verbatim>\<open>addVectors\<close>, and rounding its
  timestamps again changes nothing (lemmas \<open>merged_snapped\<close> and
  \<open>addVectors_used_snapped\<close> below).
\<close>

definition mergeVectors :: "(string \<Rightarrow> parsed) \<Rightarrow> Provider \<Rightarrow> CostData \<Rightarrow> Aggregation \<Rightarrow> float64 \<Rightarrow> float64 \<Rightarrow> panic + (Aggregation \<times> CostData)" where
  "mergeVectors pf cp costDatum aggregation discount idleCoefficient =
     (let cpu = addVectors (cdCPUAllocation costDatum) (CPUAllocation aggregation);
          ram = addVectors (cdRAMAllocation costDatum) (RAMAllocation aggregation);
          gpu = addVectors (GPUReq costDatum) (GPUAllocation aggregation);
          costDatum1 = costDatum\<lparr>cdCPUAllocation := fst (snd cpu),
                                  cdRAMAllocation := fst (snd ram),
                                  GPUReq := fst (snd gpu)\<rparr>
      in case getPriceVectors pf cp costDatum1 discount idleCoefficient of
           Inl p \<Rightarrow> Inl p
         | Inr (cpuv, ramv, gpuv, pvvs) \<Rightarrow>
             Inr (aggregation\<lparr>CPUAllocation := fst cpu,
                              RAMAllocation := fst ram,
                              GPUAllocation := fst gpu,
                              CPUCostVector := merged cpuv (CPUCostVector aggregation),
                              RAMCostVector := merged ramv (RAMCostVector aggregation),
                              GPUCostVector := merged gpuv (GPUCostVector aggregation),
                              PVCostVector := foldl merged (PVCostVector aggregation) pvvs\<rparr>,
                  costDatum1))"

text \<open>
  The map \<^verbatim>\<open>aggregations\<close> is an association list with one pair per key, in the
  order the keys were added. \<^verbatim>\<open>aggregateDatum\<close> adds an entry for a new key and
  merges the record into the entry of its key.
\<close>

definition newAggregation :: "string \<Rightarrow> string \<Rightarrow> string \<Rightarrow> CostData \<Rightarrow> Aggregation" where
  "newAggregation field subfield key costDatum =
     \<lparr>Aggregator = field, AggregatorSubField = subfield, Environment = key,
      Cluster = ClusterID costDatum,
      CPUAllocation = [], CPUCostVector = [], RAMAllocation = [], RAMCostVector = [],
      PVCostVector = [], GPUAllocation = [], GPUCostVector = [],
      CPUCost = 0, RAMCost = 0, GPUCost = 0, PVCost = 0, NetworkCost = 0,
      SharedCost = 0, TotalCost = 0\<rparr>"

definition aggregateDatum :: "(string \<Rightarrow> parsed) \<Rightarrow> Provider \<Rightarrow> (string \<times> Aggregation) list \<Rightarrow> CostData \<Rightarrow> string \<Rightarrow> string \<Rightarrow> string \<Rightarrow> float64 \<Rightarrow> float64 \<Rightarrow> panic + ((string \<times> Aggregation) list \<times> CostData)" where
  "aggregateDatum pf cp aggregations costDatum field subfield key discount idleCoefficient =
     (let agg = (case map_of aggregations key of
                   None \<Rightarrow> newAggregation field subfield key costDatum
                 | Some a \<Rightarrow> a)
      in case mergeVectors pf cp costDatum agg discount idleCoefficient of
           Inl p \<Rightarrow> Inl p
         | Inr (agg1, costDatum1) \<Rightarrow> Inr (AList.update key agg1 aggregations, costDatum1))"

subsection \<open>AggregateCostModel\<close>

text \<open>The guard of the first branch of the loop: \<^verbatim>\<open>sr\<close> may be nil.\<close>

definition isShared :: "SharedResourceInfo option \<Rightarrow> CostData \<Rightarrow> bool" where
  "isShared sr costDatum =
     (case sr of None \<Rightarrow> False | Some s \<Rightarrow> ShareResources s \<and> IsSharedResource s costDatum)"

text \<open>
  The chain of tests on \<^verbatim>\<open>field\<close>: the key \<^verbatim>\<open>aggregateDatum\<close> is called
  with, or \<open>None\<close> when no branch calls it.
\<close>

definition groupKey :: "string \<Rightarrow> string \<Rightarrow> CostData \<Rightarrow> string option" where
  "groupKey field subfield costDatum =
     (if field = ''cluster'' then Some (ClusterID costDatum)
      else if field = ''namespace'' then Some (Namespace costDatum)
      else if field = ''service'' then
        (case Services costDatum of [] \<Rightarrow> None | service # _ \<Rightarrow> Some service)
      else if field = ''deployment'' then
        (case Deployments costDatum of [] \<Rightarrow> None | deployment # _ \<Rightarrow> Some deployment)
      else if field = ''label'' then
        (case Labels costDatum of None \<Rightarrow> None | Some labels \<Rightarrow> map_of labels subfield)
      else None)"

text \<open>
  The first loop of \<^verbatim>\<open>AggregateCostModel\<close>. The map \<^verbatim>\<open>costData\<close> is the
  list of its entries in the order the \<^verbatim>\<open>range\<close> visits them, which Go leaves
  open: what is proved for every list holds for every order. The loop returns the
  aggregations, the shared total and the records as it leaves them; a panic ends it.
\<close>

fun costDataLoop :: "(string \<Rightarrow> parsed) \<Rightarrow> Provider \<Rightarrow> string \<Rightarrow> string \<Rightarrow> float64 \<Rightarrow> float64 \<Rightarrow> SharedResourceInfo option \<Rightarrow> (string \<times> CostData) list \<Rightarrow> (string \<times> Aggregation) list \<Rightarrow> float64 \<Rightarrow> panic + ((string \<times> Aggregation) list \<times> float64 \<times> (string \<times> CostData) list)" where
  "costDataLoop pf cp field subfield discount idleCoefficient sr [] aggregations sharedResourceCost =
     Inr (aggregations, sharedResourceCost, [])"
| "costDataLoop pf cp field subfield discount idleCoefficient sr ((name, costDatum) # rest) aggregations sharedResourceCost =
     (if isShared sr costDatum then
        (case getPriceVectors pf cp costDatum discount idleCoefficient of
           Inl p \<Rightarrow> Inl p
         | Inr vs \<Rightarrow>
             (case costDataLoop pf cp field subfield discount idleCoefficient sr rest aggregations
                     (addTotals sharedResourceCost vs) of
                Inl p \<Rightarrow> Inl p
              | Inr (aggs, shared, cds) \<Rightarrow> Inr (aggs, shared, (name, costDatum) # cds)))
      else
        (case groupKey field subfield costDatum of
           None \<Rightarrow>
             (case costDataLoop pf cp field subfield discount idleCoefficient sr rest aggregations
                     sharedResourceCost of
                Inl p \<Rightarrow> Inl p
              | Inr (aggs, shared, cds) \<Rightarrow> Inr (aggs, shared, (name, costDatum) # cds))
         | Some key \<Rightarrow>
             (case aggregateDatum pf cp aggregations costDatum field subfield key discount idleCoefficient of
                Inl p \<Rightarrow> Inl p
              | Inr (aggregations1, costDatum1) \<Rightarrow>
                  (case costDataLoop pf cp field subfield discount idleCoefficient sr rest aggregations1
                          sharedResourceCost of
                     Inl p \<Rightarrow> Inl p
                   | Inr (aggs, shared, cds) \<Rightarrow> Inr (aggs, shared, (name, costDatum1) # cds)))))"

text \<open>
  The body of the second loop, for one aggregation; \<open>n\<close> is
  \<^verbatim>\<open>len(aggregations)\<close>, converted by \<^verbatim>\<open>float64(...)\<close>. The loop runs
  only when there is an aggregation, so \<open>n\<close> is not zero.
\<close>

definition finishAggregation :: "bool \<Rightarrow> float64 \<Rightarrow> nat \<Rightarrow> Aggregation \<Rightarrow> Aggregation" where
  "finishAggregation timeSeries sharedResourceCost n agg =
     (let agg1 = agg\<lparr>CPUCost := totalVector (CPUCostVector agg),
                     RAMCost := totalVector (RAMCostVector agg),
                     GPUCost := totalVector (GPUCostVector agg),
                     PVCost := totalVector (PVCostVector agg),
                     SharedCost := sharedResourceCost / Finite (real n)\<rparr>;
          agg2 = agg1\<lparr>TotalCost := CPUCost agg1 + RAMCost agg1 + GPUCost agg1 + PVCost agg1 + SharedCost agg1\<rparr>
      in if \<not> timeSeries
         then agg2\<lparr>CPUCostVector := [], RAMCostVector := [], PVCostVector := [], GPUCostVector := []\<rparr>
         else agg2)"

text \<open>
  \<^verbatim>\<open>AggregateCostModel\<close> returns the aggregations; the second component of the
  model's result is the input \<^verbatim>\<open>costData\<close> as the call leaves it.
\<close>

definition AggregateCostModel :: "(string \<Rightarrow> parsed) \<Rightarrow> Provider \<Rightarrow> (string \<times> CostData) list \<Rightarrow> string \<Rightarrow> string \<Rightarrow> bool \<Rightarrow> float64 \<Rightarrow> float64 \<Rightarrow> SharedResourceInfo option \<Rightarrow> panic + ((string \<times> Aggregation) list \<times> (string \<times> CostData) list)" where
  "AggregateCostModel pf cp costData field subfield timeSeries discount idleCoefficient sr =
     (case costDataLoop pf cp field subfield discount idleCoefficient sr costData [] 0 of
        Inl p \<Rightarrow> Inl p
      | Inr (aggregations, sharedResourceCost, costData1) \<Rightarrow>
          Inr (map (\<lambda>(key, agg). (key, finishAggregation timeSeries sharedResourceCost (length aggregations) agg))
                 aggregations,
               costData1))"

subsection \<open>ComputeIdleCoefficient and its caller\<close>

datatype error = ParseDurationError | ClusterCostsError | ParseFloatError

text \<open>
  The loop of \<^verbatim>\<open>ComputeIdleCoefficient\<close> over the records, every one priced with
  idle coefficient 1.
\<close>

fun containerCostLoop :: "(string \<Rightarrow> parsed) \<Rightarrow> Provider \<Rightarrow> float64 \<Rightarrow> (string \<times> CostData) list \<Rightarrow> float64 \<Rightarrow> panic + float64" where
  "containerCostLoop pf cp discount [] totalContainerCost = Inr totalContainerCost"
| "containerCostLoop pf cp discount ((name, costDatum) # rest) totalContainerCost =
     (case getPriceVectors pf cp costDatum discount 1 of
        Inl p \<Rightarrow> Inl p
      | Inr vs \<Rightarrow> containerCostLoop pf cp discount rest (addTotals totalContainerCost vs))"

text \<open>
  \<^verbatim>\<open>ComputeIdleCoefficient\<close> returns a number and an error. Two calls leave the
  two files: \<open>windowHours\<close> is \<^verbatim>\<open>windowDuration.Hours()\<close> for the duration
  \<^verbatim>\<open>time.ParseDuration(windowString)\<close> returns (\<open>None\<close> for its error), and
  \<open>totals\<close> is the field \<^verbatim>\<open>TotalCost\<close> of what \<^verbatim>\<open>ClusterCosts\<close> returns
  (\<open>None\<close> for its error). \<^verbatim>\<open>totals.TotalCost[0][1]\<close> is read unguarded.
\<close>

definition ComputeIdleCoefficient :: "(string \<Rightarrow> parsed) \<Rightarrow> Provider \<Rightarrow> (string \<times> CostData) list \<Rightarrow> float64 \<Rightarrow> real option \<Rightarrow> string list list option \<Rightarrow> panic + (float64 \<times> error option)" where
  "ComputeIdleCoefficient pf cp costData discount windowHours totals =
     (case windowHours of
        None \<Rightarrow> Inr (0, Some ParseDurationError)
      | Some hours \<Rightarrow>
     (case totals of
        None \<Rightarrow> Inr (0, Some ClusterCostsError)
      | Some totalCost \<Rightarrow>
     (case totalCost of
        [] \<Rightarrow> Inl IndexOutOfRange
      | row # _ \<Rightarrow>
          if length row \<le> 1 then Inl IndexOutOfRange
          else
            (case pf (row ! 1) of
               ErrSyntax \<Rightarrow> Inr (0, Some ParseFloatError)
             | ErrRange positive \<Rightarrow> Inr (0, Some ParseFloatError)
             | Parsed totalClusterCost \<Rightarrow>
                 if totalClusterCost = 0 then Inr (0, None)
                 else
                   (let totalClusterCostOverWindow = (totalClusterCost / 730) * Finite hours * (1 - discount)
                    in case containerCostLoop pf cp discount costData 0 of
                         Inl p \<Rightarrow> Inl p
                       | Inr totalContainerCost \<Rightarrow>
                           Inr (totalContainerCost / totalClusterCostOverWindow, None))))))"

text \<open>
  Lines 361 to 367 of the handler \<^verbatim>\<open>(*Accesses).AggregateCostModel\<close>: the idle
  coefficient it goes on to pass to \<^verbatim>\<open>AggregateCostModel\<close>. An error of
  \<^verbatim>\<open>ComputeIdleCoefficient\<close> is written to the response and the handler goes on
  with the number returned next to it.
\<close>

definition handlerIdleCoefficient :: "(string \<Rightarrow> parsed) \<Rightarrow> Provider \<Rightarrow> (string \<times> CostData) list \<Rightarrow> float64 \<Rightarrow> string \<Rightarrow> real option \<Rightarrow> string list list option \<Rightarrow> panic + float64" where
  "handlerIdleCoefficient pf cp data discount allocateIdle windowHours totals =
     (if allocateIdle = ''true'' then
        (case ComputeIdleCoefficient pf cp data discount windowHours totals of
           Inl p \<Rightarrow> Inl p
         | Inr (idleCoefficient, err) \<Rightarrow> Inr idleCoefficient)
      else Inr 1)"

section \<open>The aggregation handler and its cache\<close>

text \<open>
  \<^verbatim>\<open>strings.Split(s, sep)\<close> for a separator of one character: the pieces of
  \<open>s\<close> between the separators, a single empty piece for the empty string.
\<close>

fun Split :: "string \<Rightarrow> char \<Rightarrow> string list" where
  "Split [] sep = [[]]"
| "Split (c # cs) sep =
     (if c = sep then [] # Split cs sep
      else (case Split cs sep of [] \<Rightarrow> [[c]] | piece # pieces \<Rightarrow> (c # piece) # pieces))"

text \<open>
  The query parameters the handler \<^verbatim>\<open>(*Accesses).AggregateCostModel\<close> reads, as
  its local variables hold them at line 328 (each field is named after its variable,
  with the prefix \<open>q\<close>): \<open>window\<close> after \<^verbatim>\<open>normalizeTimeParam\<close>,
  \<open>timeSeries\<close> and \<open>disableCache\<close> after the comparison with \<^verbatim>\<open>"true"\<close>.
\<close>

record Query =
  qWindow :: string
  qOffset :: string
  qNamespace :: string
  qCluster :: string
  qField :: string
  qSubfield :: string
  qAllocateIdle :: string
  qSharedNamespaces :: string
  qSharedLabelNames :: string
  qSharedLabelValues :: string
  qTimeSeries :: bool
  qDisableCache :: bool

text \<open>
  Line 328:
  \<^verbatim>\<open>fmt.Sprintf("aggregate:%s:%s:%s:%s:%s:%s:%t", window, offset, namespace, cluster, field, subfield, timeSeries)\<close>.
\<close>

definition aggKey :: "Query \<Rightarrow> string" where
  "aggKey q =
     ''aggregate:'' @ qWindow q @ '':'' @ qOffset q @ '':'' @ qNamespace q @ '':'' @ qCluster q
       @ '':'' @ qField q @ '':'' @ qSubfield q @ '':'' @ (if qTimeSeries q then ''true'' else ''false'')"

text \<open>
  Lines 369 to 386: the shared-resource configuration of a request. \<open>None\<close> is the
  error response for label names and values that do not pair up; \<open>Some None\<close> is a
  nil \<^verbatim>\<open>sr\<close>.
\<close>

definition handlerSharedInfo :: "Query \<Rightarrow> panic + SharedResourceInfo option option" where
  "handlerSharedInfo q =
     (let sn = (if qSharedNamespaces q \<noteq> [] then Split (qSharedNamespaces q) CHR '','' else []);
          sln = (if qSharedLabelNames q \<noteq> [] then Split (qSharedLabelNames q) CHR '','' else []);
          slv = (if qSharedLabelNames q \<noteq> [] then Split (qSharedLabelValues q) CHR '','' else [])
      in if qSharedLabelNames q \<noteq> [] \<and> (length sln \<noteq> length slv \<or> take 1 slv = [[]])
         then Inr None
         else if length sn > 0 \<or> length sln > 0
         then (case NewSharedResourceInfo True sn sln slv of
                 Inl p \<Rightarrow> Inl p
               | Inr sr \<Rightarrow> Inr (Some (Some sr)))
         else Inr (Some None))"

text \<open>
  What the handler writes: a cached result, a freshly computed one, or an error.
\<close>

datatype response =
  CacheHit "(string \<times> Aggregation) list"
| CacheMiss "(string \<times> Aggregation) list"
| ErrorResponse

text \<open>
  Lines 328 to 392 of the handler, for a request whose parameters were read and
  validated. The cache is an association list from keys to results, within the expiry
  time of its entries. \<open>data\<close> is what \<^verbatim>\<open>ComputeCostDataRange\<close> returns for the
  request and \<open>discount\<close> the discount of the provider's configuration; \<open>windowHours\<close>
  and \<open>totals\<close> are as for \<^verbatim>\<open>ComputeIdleCoefficient\<close>.
\<close>

definition serveAggregate :: "(string \<Rightarrow> parsed) \<Rightarrow> Provider \<Rightarrow> (string \<times> CostData) list \<Rightarrow> float64 \<Rightarrow> real option \<Rightarrow> string list list option \<Rightarrow> Query \<Rightarrow> (string \<times> (string \<times> Aggregation) list) list \<Rightarrow> panic + (response \<times> (string \<times> (string \<times> Aggregation) list) list)" where
  "serveAggregate pf cp data discount windowHours totals q cache =
     (case (map_of cache (aggKey q), qDisableCache q) of
        (Some result, False) \<Rightarrow> Inr (CacheHit result, cache)
      | _ \<Rightarrow>
          (case handlerIdleCoefficient pf cp data discount (qAllocateIdle q) windowHours totals of
             Inl p \<Rightarrow> Inl p
           | Inr idleCoefficient \<Rightarrow>
               (case handlerSharedInfo q of
                  Inl p \<Rightarrow> Inl p
                | Inr None \<Rightarrow> Inr (ErrorResponse, cache)
                | Inr (Some sr) \<Rightarrow>
                    (case AggregateCostModel pf cp data (qField q) (qSubfield q) (qTimeSeries q)
                            discount idleCoefficient sr of
                       Inl p \<Rightarrow> Inl p
                     | Inr (result, data1) \<Rightarrow>
                         Inr (CacheMiss result, AList.update (aggKey q) result cache)))))"

section \<open>The reconciler: recordPrices\<close>

text \<open>
  A \<^verbatim>\<open>prometheus.GaugeVec\<close> is the association list of its series: the label
  values of a series and its value. \<^verbatim>\<open>WithLabelValues(l...).Set(v)\<close> is
  \<open>AList.update l v\<close> and \<^verbatim>\<open>DeleteLabelValues(l...)\<close> is \<open>AList.delete l\<close>:
  label values that no series has, in particular too many or too few of them, delete
  nothing. The state of the goroutine is its four tracking maps, each the association
  list of its entries, and the gauge vectors it writes.
\<close>

record Reconciler =
  CPUPriceRecorder :: "(string list \<times> float64) list"
  RAMPriceRecorder :: "(string list \<times> float64) list"
  PersistentVolumePriceRecorder :: "(string list \<times> float64) list"
  GPUPriceRecorder :: "(string list \<times> float64) list"
  NodeTotalPriceRecorder :: "(string list \<times> float64) list"
  RAMAllocationRecorder :: "(string list \<times> float64) list"
  CPUAllocationRecorder :: "(string list \<times> float64) list"
  GPUAllocationRecorder :: "(string list \<times> float64) list"
  PVAllocationRecorder :: "(string list \<times> float64) list"
  ContainerUptimeRecorder :: "(string list \<times> float64) list"
  containerSeen :: "(string \<times> bool) list"
  nodeSeen :: "(string \<times> bool) list"
  pvSeen :: "(string \<times> bool) list"
  pvcSeen :: "(string \<times> bool) list"

text \<open>
  What one cycle reads from outside the two files: the cost data (empty after an error
  of \<^verbatim>\<open>ComputeCostData\<close>), the names of the pods whose phase is
  \<^verbatim>\<open>PodRunning\<close>, the storage classes (name, parameters, and whether an annotation
  marks the class as the default), the persistent volumes (name, storage class name,
  region label) and the uptimes \<^verbatim>\<open>ComputeUptimes\<close> returns, each with the
  namespace, pod and container name \<^verbatim>\<open>NewContainerMetricFromKey\<close> reads from its
  key.
\<close>

record StorageClass =
  scName :: string
  scParameters :: "(string \<times> string) list"
  scIsDefault :: bool

record PersistentVolume =
  pvName :: string
  pvStorageClassName :: string
  pvRegion :: string

record Cycle =
  cycleData :: "(string \<times> CostData) list"
  runningPods :: "string list"
  storageClasses :: "StorageClass list"
  persistentVolumes :: "PersistentVolume list"
  containerUptime :: "(string list \<times> float64) list"

text \<open>\<^verbatim>\<open>strings.Join(labels, ",")\<close> and \<^verbatim>\<open>strings.Split(key, ",")\<close>.\<close>

fun getKeyFromLabelStrings :: "string list \<Rightarrow> string" where
  "getKeyFromLabelStrings [] = []"
| "getKeyFromLabelStrings [l] = l"
| "getKeyFromLabelStrings (l # ls) = l @ '','' @ getKeyFromLabelStrings ls"

definition getLabelStringsFromKey :: "string \<Rightarrow> string list" where
  "getLabelStringsFromKey key = Split key CHR '',''"

text \<open>
  Lines 670 to 678: the loop over the volume claims of a record. A claim with a volume
  has \<^verbatim>\<open>pvc.Values[0]\<close> read with no test of the length.
\<close>

fun pvcDataLoop :: "string \<Rightarrow> string \<Rightarrow> PersistentVolumeClaimData list \<Rightarrow> Reconciler \<Rightarrow> panic + Reconciler" where
  "pvcDataLoop namespace podName [] st = Inr st"
| "pvcDataLoop namespace podName (pvc # rest) st =
     (case Volume pvc of
        None \<Rightarrow> pvcDataLoop namespace podName rest st
      | Some volume \<Rightarrow>
          (case Values pvc of
             [] \<Rightarrow> Inl IndexOutOfRange
           | v # _ \<Rightarrow>
               pvcDataLoop namespace podName rest
                 (st\<lparr>PVAllocationRecorder :=
                       AList.update [namespace, podName, Claim pvc, VolumeName pvc] (Value v)
                         (PVAllocationRecorder st),
                     pvcSeen :=
                       AList.update (getKeyFromLabelStrings [namespace, podName, Claim pvc, VolumeName pvc])
                         True (pvcSeen st)\<rparr>)))"

text \<open>Lines 704 to 713: the map from storage class names to parameters.\<close>

fun storageClassMap :: "StorageClass list \<Rightarrow> (string \<times> (string \<times> string) list) list \<Rightarrow> (string \<times> (string \<times> string) list) list" where
  "storageClassMap [] m = m"
| "storageClassMap (storageClass # rest) m =
     (let params = scParameters storageClass;
          m1 = AList.update (scName storageClass) params m;
          m2 = (if scIsDefault storageClass
                then AList.update [] params (AList.update ''default'' params m1) else m1)
      in storageClassMap rest m2)"

text \<open>
  Lines 715 to 731: the loop over the persistent volumes. A storage class that the map
  does not have gives nil parameters (the empty list) and a log line. \<open>GetPVCost\<close>
  stands for the price string the function of that name, which is outside the two
  files, stores in \<^verbatim>\<open>cacPv.Cost\<close>, given class, region, parameters and volume.
\<close>

fun pvLoop :: "(string \<Rightarrow> parsed) \<Rightarrow> (string \<Rightarrow> string \<Rightarrow> (string \<times> string) list \<Rightarrow> PersistentVolume \<Rightarrow> string) \<Rightarrow> (string \<times> (string \<times> string) list) list \<Rightarrow> PersistentVolume list \<Rightarrow> Reconciler \<Rightarrow> Reconciler" where
  "pvLoop pf GetPVCost scMap [] st = st"
| "pvLoop pf GetPVCost scMap (pv # rest) st =
     (let parameters = (case map_of scMap (pvStorageClassName pv) of None \<Rightarrow> [] | Some ps \<Rightarrow> ps);
          c = parseFloat pf (GetPVCost (pvStorageClassName pv) (pvRegion pv) parameters pv)
      in pvLoop pf GetPVCost scMap rest
           (st\<lparr>PersistentVolumePriceRecorder :=
                 AList.update [pvName pv, pvName pv] c (PersistentVolumePriceRecorder st),
               pvSeen := AList.update (getKeyFromLabelStrings [pvName pv, pvName pv]) True (pvSeen st)\<rparr>))"

text \<open>Lines 732 to 736: the uptime gauge of every container with an uptime.\<close>

definition uptimeLoop :: "(string list \<times> float64) list \<Rightarrow> Reconciler \<Rightarrow> Reconciler" where
  "uptimeLoop uptimes st =
     st\<lparr>ContainerUptimeRecorder :=
          foldl (\<lambda>g (labels, uptime). AList.update labels uptime g) (ContainerUptimeRecorder st) uptimes\<rparr>"

text \<open>
  Lines 651 to 736: the body of the loop over the cost data. A record without node
  data is skipped. (The log lines and the three network gauges, which are set before
  the loop from the provider's network prices, are left out.)
\<close>

definition recordCosts :: "(string \<Rightarrow> parsed) \<Rightarrow> (string \<Rightarrow> string \<Rightarrow> (string \<times> string) list \<Rightarrow> PersistentVolume \<Rightarrow> string) \<Rightarrow> Cycle \<Rightarrow> CostData \<Rightarrow> Reconciler \<Rightarrow> panic + Reconciler" where
  "recordCosts pf GetPVCost cyc costs st =
     (case NodeData costs of
        None \<Rightarrow> Inr st
      | Some node \<Rightarrow>
          (let nodeName = NodeName costs;
               cpuCost = parseFloat pf (VCPUCost node);
               cpu = parseFloat pf (VCPU node);
               ramCost = parseFloat pf (NodeRAMCost node);
               ram = parseFloat pf (RAMBytes node);
               gpu = parseFloat pf (NodeGPU node);
               gpuCost = parseFloat pf (NodeGPUCost node);
               totalCost = cpu * cpuCost + ramCost * (ram / 1024 / 1024 / 1024) + gpu * gpuCost;
               namespace = Namespace costs;
               podName = PodName costs;
               containerName = Name costs
           in case pvcDataLoop namespace podName (PVCData costs) st of
                Inl p \<Rightarrow> Inl p
              | Inr st1 \<Rightarrow>
                  (let st2 = st1\<lparr>CPUPriceRecorder := AList.update [nodeName, nodeName] cpuCost (CPUPriceRecorder st1),
                                 RAMPriceRecorder := AList.update [nodeName, nodeName] ramCost (RAMPriceRecorder st1),
                                 GPUPriceRecorder := AList.update [nodeName, nodeName] gpuCost (GPUPriceRecorder st1),
                                 NodeTotalPriceRecorder := AList.update [nodeName, nodeName] totalCost (NodeTotalPriceRecorder st1),
                                 nodeSeen := AList.update (getKeyFromLabelStrings [nodeName, nodeName]) True (nodeSeen st1)\<rparr>;
                       labels = [namespace, podName, containerName, nodeName, nodeName];
                       st3 = (case cdRAMAllocation costs of
                                [] \<Rightarrow> st2
                              | v # _ \<Rightarrow> st2\<lparr>RAMAllocationRecorder := AList.update labels (Value v) (RAMAllocationRecorder st2)\<rparr>);
                       st4 = (case cdCPUAllocation costs of
                                [] \<Rightarrow> st3
                              | v # _ \<Rightarrow> st3\<lparr>CPUAllocationRecorder := AList.update labels (Value v) (CPUAllocationRecorder st3)\<rparr>);
                       st5 = (case GPUReq costs of
                                [] \<Rightarrow> st4
                              | v # _ \<Rightarrow> st4\<lparr>GPUAllocationRecorder := AList.update labels (Value v) (GPUAllocationRecorder st4)\<rparr>);
                       st6 = st5\<lparr>containerSeen :=
                                   AList.update (getKeyFromLabelStrings labels) (podName \<in> set (runningPods cyc))
                                     (containerSeen st5)\<rparr>;
                       st7 = pvLoop pf GetPVCost (storageClassMap (storageClasses cyc) [])
                               (persistentVolumes cyc) st6
                   in Inr (uptimeLoop (containerUptime cyc) st7))))"

fun dataLoop :: "(string \<Rightarrow> parsed) \<Rightarrow> (string \<Rightarrow> string \<Rightarrow> (string \<times> string) list \<Rightarrow> PersistentVolume \<Rightarrow> string) \<Rightarrow> Cycle \<Rightarrow> (string \<times> CostData) list \<Rightarrow> Reconciler \<Rightarrow> panic + Reconciler" where
  "dataLoop pf GetPVCost cyc [] st = Inr st"
| "dataLoop pf GetPVCost cyc ((name, costs) # rest) st =
     (case recordCosts pf GetPVCost cyc costs st of
        Inl p \<Rightarrow> Inl p
      | Inr st1 \<Rightarrow> dataLoop pf GetPVCost cyc rest st1)"

text \<open>
  One of the four loops of lines 738 to 775, over the entries of a tracking map; \<open>del\<close>
  deletes the series of the loop's gauge vectors. For an entry whose flag is false the
  body deletes the series and the entry, and then, for every entry, stores false under
  the key. The body only ever changes the entry it visits, so the loop visits the
  entries the map has when it starts; an entry that Go visits a second time after the
  body has stored it again is left as it is by the second visit.
\<close>

fun sweepLoop :: "(string list \<Rightarrow> Reconciler \<Rightarrow> Reconciler) \<Rightarrow> (string \<times> bool) list \<Rightarrow> (string \<times> bool) list \<times> Reconciler \<Rightarrow> (string \<times> bool) list \<times> Reconciler" where
  "sweepLoop del [] (seenMap, st) = (seenMap, st)"
| "sweepLoop del ((labelString, seen) # rest) (seenMap, st) =
     (let (seenMap1, st1) =
            (if \<not> seen
             then (AList.delete labelString seenMap, del (getLabelStringsFromKey labelString) st)
             else (seenMap, st))
      in sweepLoop del rest (AList.update labelString False seenMap1, st1))"

definition deleteNode :: "string list \<Rightarrow> Reconciler \<Rightarrow> Reconciler" where
  "deleteNode labels st =
     st\<lparr>NodeTotalPriceRecorder := AList.delete labels (NodeTotalPriceRecorder st),
        CPUPriceRecorder := AList.delete labels (CPUPriceRecorder st),
        GPUPriceRecorder := AList.delete labels (GPUPriceRecorder st),
        RAMPriceRecorder := AList.delete labels (RAMPriceRecorder st)\<rparr>"

definition deleteContainer :: "string list \<Rightarrow> Reconciler \<Rightarrow> Reconciler" where
  "deleteContainer labels st =
     st\<lparr>RAMAllocationRecorder := AList.delete labels (RAMAllocationRecorder st),
        CPUAllocationRecorder := AList.delete labels (CPUAllocationRecorder st),
        GPUAllocationRecorder := AList.delete labels (GPUAllocationRecorder st),
        ContainerUptimeRecorder := AList.delete labels (ContainerUptimeRecorder st)\<rparr>"

definition deletePV :: "string list \<Rightarrow> Reconciler \<Rightarrow> Reconciler" where
  "deletePV labels st =
     st\<lparr>PersistentVolumePriceRecorder := AList.delete labels (PersistentVolumePriceRecorder st)\<rparr>"

definition deletePVC :: "string list \<Rightarrow> Reconciler \<Rightarrow> Reconciler" where
  "deletePVC labels st =
     st\<lparr>PVAllocationRecorder := AList.delete labels (PVAllocationRecorder st)\<rparr>"

text \<open>Lines 738 to 775: the four sweeps, in the order of the source.\<close>

definition sweep :: "Reconciler \<Rightarrow> Reconciler" where
  "sweep st =
     (let (nodes, st1) = sweepLoop deleteNode (nodeSeen st) (nodeSeen st, st);
          st2 = st1\<lparr>nodeSeen := nodes\<rparr>;
          (containers, st3) = sweepLoop deleteContainer (containerSeen st2) (containerSeen st2, st2);
          st4 = st3\<lparr>containerSeen := containers\<rparr>;
          (pvs, st5) = sweepLoop deletePV (pvSeen st4) (pvSeen st4, st4);
          st6 = st5\<lparr>pvSeen := pvs\<rparr>;
          (pvcs, st7) = sweepLoop deletePVC (pvcSeen st6) (pvcSeen st6, st6)
      in st7\<lparr>pvcSeen := pvcs\<rparr>)"

text \<open>One pass of the loop of \<^verbatim>\<open>recordPrices\<close>: the data pass, then the sweeps.\<close>

definition recordPricesCycle :: "(string \<Rightarrow> parsed) \<Rightarrow> (string \<Rightarrow> string \<Rightarrow> (string \<times> string) list \<Rightarrow> PersistentVolume \<Rightarrow> string) \<Rightarrow> Cycle \<Rightarrow> Reconciler \<Rightarrow> panic + Reconciler" where
  "recordPricesCycle pf GetPVCost cyc st =
     (case dataLoop pf GetPVCost cyc (cycleData cyc) st of
        Inl p \<Rightarrow> Inl p
      | Inr st1 \<Rightarrow> Inr (sweep st1))"

text \<open>The state the goroutine starts with: empty maps, no series.\<close>

definition startState :: Reconciler where
  "startState =
     \<lparr>CPUPriceRecorder = [], RAMPriceRecorder = [], PersistentVolumePriceRecorder = [],
      GPUPriceRecorder = [], NodeTotalPriceRecorder = [], RAMAllocationRecorder = [],
      CPUAllocationRecorder = [], GPUAllocationRecorder = [], PVAllocationRecorder = [],
      ContainerUptimeRecorder = [], containerSeen = [], nodeSeen = [], pvSeen = [], pvcSeen = []\<rparr>"

section \<open>Expected results and sample inputs\<close>

text \<open>
  A record after \<^verbatim>\<open>addVectors\<close> has rounded the timestamps of its three
  allocation series in place.
\<close>

definition snapRecord :: "CostData \<Rightarrow> CostData" where
  "snapRecord c = c\<lparr>cdCPUAllocation := map snapInPlace (cdCPUAllocation c),
                     cdRAMAllocation := map snapInPlace (cdRAMAllocation c),
                     GPUReq := map snapInPlace (GPUReq c)\<rparr>"

text \<open>
  The cost of one record (the sum of the totals of its four kinds of cost series) and
  the shared pool of a call: the cost of the records the shared-resource test selects.
\<close>

definition recordCost :: "(string \<Rightarrow> parsed) \<Rightarrow> Provider \<Rightarrow> float64 \<Rightarrow> float64 \<Rightarrow> CostData \<Rightarrow> float64" where
  "recordCost pf cp discount idleCoefficient costDatum =
     (case getPriceVectors pf cp costDatum discount idleCoefficient of
        Inl p \<Rightarrow> 0
      | Inr vs \<Rightarrow> addTotals 0 vs)"

definition sharedPoolTotal :: "(string \<Rightarrow> parsed) \<Rightarrow> Provider \<Rightarrow> float64 \<Rightarrow> float64 \<Rightarrow> SharedResourceInfo option \<Rightarrow> (string \<times> CostData) list \<Rightarrow> float64" where
  "sharedPoolTotal pf cp discount idleCoefficient sr costData =
     sum_list (map (\<lambda>(name, c). recordCost pf cp discount idleCoefficient c)
                 (filter (\<lambda>(name, c). isShared sr c) costData))"

text \<open>
  The cost formula of the specification,
  \<open>allocationValue \<times> unitConversion \<times> unitPrice \<times> (1 - discount) / idleCoefficient\<close>,
  and the series it gives for an allocation series.
\<close>

definition expectedCost :: "float64 \<Rightarrow> float64 \<Rightarrow> float64 \<Rightarrow> float64 \<Rightarrow> float64 \<Rightarrow> float64" where
  "expectedCost allocationValue u p d k = allocationValue * u * p * (1 - d) / k"

definition pricedSeries :: "float64 \<Rightarrow> float64 \<Rightarrow> float64 \<Rightarrow> float64 \<Rightarrow> Vector list \<Rightarrow> Vector list" where
  "pricedSeries u p d k vs =
     map (\<lambda>val. \<lparr>Timestamp = snap (Timestamp val), Value = expectedCost (Value val) u p d k\<rparr>) vs"

text \<open>The unit conversion of RAM and storage, bytes to GiB.\<close>

definition perGiB :: float64 where
  "perGiB = Finite (1 / 1024 ^ 3)"

text \<open>The claims with a volume, each with its volume and its sampled series.\<close>

definition boundClaims :: "PersistentVolumeClaimData list \<Rightarrow> (PV \<times> Vector list) list" where
  "boundClaims pvcs =
     List.map_filter (\<lambda>pvc. case Volume pvc of None \<Rightarrow> None | Some v \<Rightarrow> Some (v, Values pvc)) pvcs"

text \<open>The price string that decides the price of a claim's volume.\<close>

definition volumePriceString :: "Provider \<Rightarrow> string \<Rightarrow> PV \<Rightarrow> string" where
  "volumePriceString cp pvCostStr volume = (if CustomPricesEnabled cp then pvCostStr else Cost volume)"

text \<open>
  Sample inputs: a parser that knows four numerals and that \<open>1e400\<close> is out of range,
  and takes every other string for a syntax error; a node, a provider, a record.
\<close>

definition pfSample :: "string \<Rightarrow> parsed" where
  "pfSample s =
     (if s = ''1e400'' then ErrRange True
      else case map_of [(''0'', 0), (''1'', 1), (''6'', 6), (''0.05'', 5 / 100)] s of
             None \<Rightarrow> ErrSyntax
           | Some x \<Rightarrow> Parsed (Finite x))"

definition nodeSample :: "string \<Rightarrow> Node" where
  "nodeSample cpuPrice =
     \<lparr>VCPUCost = cpuPrice, NodeRAMCost = ''n/a'', NodeGPUCost = ''0'', StorageCost = ''0'',
      VCPU = ''1'', RAMBytes = ''0'', NodeGPU = ''0'', IsSpot = False\<rparr>"

definition providerSample :: Provider where
  "providerSample = \<lparr>GetConfig = None, CustomPricesEnabled = False\<rparr>"

definition containerSample :: "string \<Rightarrow> Node option \<Rightarrow> Vector list \<Rightarrow> Vector list \<Rightarrow> CostData" where
  "containerSample ns node cpu ram =
     \<lparr>Name = ''container'', PodName = ''pod'', NodeName = ''node'', NodeData = node,
      Namespace = ns, Deployments = [], Services = [],
      cdCPUAllocation = cpu, cdRAMAllocation = ram, GPUReq = [], PVCData = [],
      Labels = None, ClusterID = ''cluster-one''\<rparr>"

definition kubeSystemShared :: SharedResourceInfo where
  "kubeSystemShared =
     \<lparr>ShareResources = True, SharedNamespace = [''kube-system'' \<mapsto> True], LabelSelectors = []\<rparr>"

text \<open>
  An aggregation by namespace of the sample cluster with the given CPU allocation
  series, CPU cost and shared cost, every other series empty and every other cost zero.
\<close>

definition aggregationSample :: "string \<Rightarrow> Vector list \<Rightarrow> float64 \<Rightarrow> float64 \<Rightarrow> Aggregation" where
  "aggregationSample ns cpu cpuCost sharedCost =
     \<lparr>Aggregator = ''namespace'', AggregatorSubField = [], Environment = ns,
      Cluster = ''cluster-one'',
      CPUAllocation = cpu, CPUCostVector = [], RAMAllocation = [], RAMCostVector = [],
      PVCostVector = [], GPUAllocation = [], GPUCostVector = [],
      CPUCost = cpuCost, RAMCost = 0, GPUCost = 0, PVCost = 0, NetworkCost = 0,
      SharedCost = sharedCost, TotalCost = cpuCost + sharedCost\<rparr>"

text \<open>
  A request for an aggregation by namespace over 24 hours, with no other parameter set.
\<close>

definition querySample :: Query where
  "querySample =
     \<lparr>qWindow = ''24h'', qOffset = [], qNamespace = [], qCluster = [], qField = ''namespace'',
      qSubfield = [], qAllocateIdle = [], qSharedNamespaces = [], qSharedLabelNames = [],
      qSharedLabelValues = [], qTimeSeries = False, qDisableCache = False\<rparr>"

text \<open>
  Two cycles of the reconciler: in the first the cost data has one container, running
  on the node \<open>node\<close>, with an uptime; in the second the cost data is empty.
\<close>

definition cycleOne :: Cycle where
  "cycleOne =
     \<lparr>cycleData = [(''1'', containerSample ''default'' (Some (nodeSample ''1''))
                              [\<lparr>Timestamp = 100, Value = 1\<rparr>] [])],
      runningPods = [''pod''], storageClasses = [], persistentVolumes = [],
      containerUptime = [([''default'', ''pod'', ''container''], 60)]\<rparr>"

definition cycleTwo :: Cycle where
  "cycleTwo =
     \<lparr>cycleData = [], runningPods = [], storageClasses = [], persistentVolumes = [],
      containerUptime = []\<rparr>"

section \<open>Properties of float64 arithmetic\<close>

lemma numeral_float64 [code_unfold]: "(numeral n :: float64) = Finite (numeral n)"
  by (induction n) (simp_all only: numeral.simps one_float64_def plus_float64.simps)

lemma times_one_float64: "(x :: float64) * 1 = x"
  by (cases x) (simp_all add: one_float64_def)

lemma divide_1024_float64: "(x :: float64) / 1024 / 1024 / 1024 = x * Finite (1 / 1024 ^ 3)"
  by (cases x) (simp_all add: numeral_float64)

section \<open>Properties of addVectors\<close>

lemma goRound_of_int: "goRound (of_int n) = of_int n"
  by (simp add: goRound_def)

lemma snap_idem: "snap (snap t) = snap t"
proof -
  define n :: int where "n = (if t / 10 < 0 then - \<lfloor>- (t / 10) + 1 / 2\<rfloor> else \<lfloor>t / 10 + 1 / 2\<rfloor>)"
  have n: "goRound (t / 10) = of_int n"
    by (simp add: goRound_def n_def)
  have "snap t / 10 = of_int n" by (simp add: snap_def n)
  then have "goRound (snap t / 10) = of_int n" by (simp only: goRound_of_int)
  then show ?thesis by (simp add: snap_def n)
qed

lemma snap_zero: "snap 0 = 0"
  by (simp add: snap_def goRound_def)

lemma snapInPlace_idem: "snapInPlace (snapInPlace v) = snapInPlace v"
  by (simp add: snapInPlace_def snap_idem)

lemma snapInPlace_Value: "Value (snapInPlace v) = Value v"
  by (simp add: snapInPlace_def)

lemma snapInPlace_Timestamp: "Timestamp (snapInPlace v) = snap (Timestamp v)"
  by (simp add: snapInPlace_def snap_zero)

lemma gridPoints_Cons:
  "gridPoints (v # vs) = (if Timestamp v = 0 then gridPoints vs else snap (Timestamp v) # gridPoints vs)"
  by (simp add: gridPoints_def)

lemma gridPoints_Nil: "gridPoints [] = []"
  by (simp add: gridPoints_def)

lemma valueAt_Cons:
  "valueAt (v # vs) = (if Timestamp v = 0 then valueAt vs else (valueAt vs)(snap (Timestamp v) \<mapsto> Value v))"
  by (simp add: valueAt_def)

lemma valueAt_None: "valueAt vs t = None \<longleftrightarrow> t \<notin> set (gridPoints vs)"
  by (simp add: valueAt_def gridPoints_def map_of_eq_None_iff image_image)

lemma reqLoop_timestamps: "snd (reqLoop req m ts) = ts @ gridPoints req"
  by (induction req arbitrary: m ts) (simp_all add: gridPoints_Cons gridPoints_Nil Let_def)

lemma reqLoop_map:
  "distinct (gridPoints req) \<Longrightarrow>
   fst (reqLoop req m ts) t = (case valueAt req t of Some x \<Rightarrow> Some x | None \<Rightarrow> m t)"
proof (induction req arbitrary: m ts)
  case Nil
  then show ?case by (simp add: valueAt_def)
next
  case (Cons v vs)
  show ?case
  proof (cases "Timestamp v = 0")
    case True
    with Cons show ?thesis by (simp add: gridPoints_Cons valueAt_Cons)
  next
    case False
    with Cons.prems have d: "distinct (gridPoints vs)" and n: "snap (Timestamp v) \<notin> set (gridPoints vs)"
      by (simp_all add: gridPoints_Cons)
    from n have "valueAt vs (snap (Timestamp v)) = None" by (simp add: valueAt_None)
    with False Cons.IH[OF d] show ?thesis
      by (simp add: valueAt_Cons Let_def split: option.splits)
  qed
qed

lemma usedLoop_map: "fst (usedLoop rm used um ts) = fst (reqLoop used um ts')"
  by (induction used arbitrary: um ts ts') (simp_all add: Let_def)

lemma usedLoop_timestamps:
  "snd (usedLoop rm used um ts) = ts @ filter (\<lambda>t. rm t = None) (gridPoints used)"
  by (induction used arbitrary: um ts) (simp_all add: gridPoints_Cons gridPoints_Nil Let_def)

lemma merged_general:
  assumes "a \<noteq> []" "b \<noteq> []"
  shows "merged a b =
    map (allocationVector (fst (reqLoop a Map.empty [])) (fst (reqLoop b Map.empty [])))
      (sort (gridPoints a @ filter (\<lambda>t. fst (reqLoop a Map.empty []) t = None) (gridPoints b)))"
proof -
  obtain rm t1 where r: "reqLoop a Map.empty [] = (rm, t1)" by (cases "reqLoop a Map.empty []")
  obtain um t2 where u: "usedLoop rm b Map.empty t1 = (um, t2)" by (cases "usedLoop rm b Map.empty t1")
  have t1: "t1 = gridPoints a" using reqLoop_timestamps[of a Map.empty "[]"] r by simp
  have t2: "t2 = t1 @ filter (\<lambda>t. rm t = None) (gridPoints b)"
    using usedLoop_timestamps[of rm b Map.empty t1] u by simp
  have um: "um = fst (reqLoop b Map.empty [])"
    using usedLoop_map[of rm b Map.empty t1 "[]"] u by simp
  have "merged a b = map (allocationVector rm um) (sort t2)"
    using assms by (simp add: merged_def addVectors_def r u)
  moreover have "fst (reqLoop a Map.empty []) = rm" using r by simp
  ultimately show ?thesis by (simp add: t1 t2 um)
qed

lemma merged_empty_used: "merged a [] = map snapInPlace a"
  by (simp add: merged_def addVectors_def)

lemma merged_empty_req: "merged [] a = map snapInPlace a"
  by (simp add: merged_def addVectors_def)

text \<open>
  Claim C1, as the code has it. Let \<open>a\<close> and \<open>b\<close> be non-empty series in each of
  which the vectors with a non-zero timestamp snap to pairwise distinct grid points.
  Then \<^verbatim>\<open>addVectors\<close> returns exactly one vector per grid point that a vector
  with a non-zero timestamp of either series snaps to, in ascending order, and its
  value is the sum of the two contributions when both series reach the grid point and
  the single contribution otherwise. Vectors whose timestamp is exactly zero
  contribute nothing.
\<close>

theorem addVectors_one_point_per_grid_point:
  assumes "a \<noteq> []" and "b \<noteq> []"
    and "distinct (gridPoints a)" and "distinct (gridPoints b)"
  shows "merged a b =
    map (\<lambda>t. \<lparr>Timestamp = t, Value = mergedValue a b t\<rparr>)
      (sorted_list_of_set (set (gridPoints a) \<union> set (gridPoints b)))"
proof -
  let ?rm = "fst (reqLoop a Map.empty [])"
  let ?um = "fst (reqLoop b Map.empty [])"
  let ?ts = "gridPoints a @ filter (\<lambda>t. ?rm t = None) (gridPoints b)"
  have rm: "?rm t = valueAt a t" for t
    using reqLoop_map[OF assms(3), of Map.empty "[]" t] by (simp split: option.splits)
  have um: "?um t = valueAt b t" for t
    using reqLoop_map[OF assms(4), of Map.empty "[]" t] by (simp split: option.splits)
  have dist: "distinct ?ts"
    using assms(3,4) by (auto simp: rm valueAt_None)
  have set_ts: "set ?ts = set (gridPoints a) \<union> set (gridPoints b)"
    by (auto simp: rm valueAt_None)
  have "sorted_list_of_set (set ?ts) = sort (remdups ?ts)"
    by (rule sorted_list_of_set_sort_remdups)
  then have "sorted_list_of_set (set ?ts) = sort ?ts"
    using dist by (simp only: distinct_remdups_id)
  then have sorted_ts: "sort ?ts = sorted_list_of_set (set (gridPoints a) \<union> set (gridPoints b))"
    by (simp only: set_ts)
  have pt: "allocationVector ?rm ?um t = \<lparr>Timestamp = t, Value = mergedValue a b t\<rparr>" for t
    by (simp add: allocationVector_def mergedValue_def rm um split: option.splits)
  then have pt': "allocationVector ?rm ?um = (\<lambda>t. \<lparr>Timestamp = t, Value = mergedValue a b t\<rparr>)"
    by (intro ext)
  show ?thesis
    by (simp only: merged_general[OF assms(1,2)] sorted_ts pt')
qed

text \<open>
  The example of the specification: \<open>{t=101, v=1.0}\<close> merged with \<open>{t=99, v=0.5}\<close>
  is the single vector \<open>{t=100, v=1.5}\<close>.
\<close>

theorem addVectors_one_point_per_grid_point_witness:
  "[\<lparr>Timestamp = 101, Value = 1\<rparr>] \<noteq> [] \<and> [\<lparr>Timestamp = 99, Value = 1 / 2\<rparr>] \<noteq> []
   \<and> distinct (gridPoints [\<lparr>Timestamp = 101, Value = 1\<rparr>])
   \<and> distinct (gridPoints [\<lparr>Timestamp = 99, Value = 1 / 2\<rparr>])
   \<and> merged [\<lparr>Timestamp = 101, Value = 1\<rparr>] [\<lparr>Timestamp = 99, Value = 1 / 2\<rparr>]
       = [\<lparr>Timestamp = 100, Value = 3 / 2\<rparr>]"
  using addVectors_one_point_per_grid_point
    [of "[\<lparr>Timestamp = 101, Value = 1\<rparr>]" "[\<lparr>Timestamp = 99, Value = 1 / 2\<rparr>]"]
  by (simp add: gridPoints_def mergedValue_def valueAt_def snap_def goRound_def
      numeral_float64 one_float64_def)

text \<open>
  Claim C1 as stated fails. With \<open>a = [{0, 1}, {101, 1}, {99, 2}]\<close> and
  \<open>b = [{50, 1}]\<close> the distinct snapped timestamps of the inputs are \<open>0\<close>, \<open>50\<close> and
  \<open>100\<close>, but the result has no vector at \<open>0\<close> (the zero timestamp is skipped) and
  two vectors at \<open>100\<close> (both vectors of \<open>a\<close> that snap to \<open>100\<close> are appended).
\<close>

theorem addVectors_one_point_per_timestamp_counterexample:
  "merged [\<lparr>Timestamp = 0, Value = 1\<rparr>, \<lparr>Timestamp = 101, Value = 1\<rparr>, \<lparr>Timestamp = 99, Value = 2\<rparr>]
          [\<lparr>Timestamp = 50, Value = 1\<rparr>]
     = [\<lparr>Timestamp = 50, Value = 1\<rparr>, \<lparr>Timestamp = 100, Value = 2\<rparr>, \<lparr>Timestamp = 100, Value = 2\<rparr>]
   \<and> sorted_list_of_set (snap ` Timestamp `
         (set [\<lparr>Timestamp = 0, Value = 1\<rparr>, \<lparr>Timestamp = 101, Value = 1\<rparr>, \<lparr>Timestamp = 99, Value = 2\<rparr>]
          \<union> set [\<lparr>Timestamp = 50, Value = 1::float64\<rparr>]))
     = [0, 50, 100]
   \<and> map Timestamp
         (merged [\<lparr>Timestamp = 0, Value = 1\<rparr>, \<lparr>Timestamp = 101, Value = 1\<rparr>, \<lparr>Timestamp = 99, Value = 2\<rparr>]
                 [\<lparr>Timestamp = 50, Value = 1\<rparr>])
     \<noteq> [0, 50, 100]"
  by (simp add: merged_def addVectors_def allocationVector_def snap_def goRound_def)

text \<open>
  Claim C10 at a failing input. When the other argument is empty, \<^verbatim>\<open>addVectors\<close>
  returns its argument itself: the \<^verbatim>\<open>continue\<close> on a zero timestamp skips only
  the rounding, so the vector \<open>{t=0, v=5}\<close> is still part of the result, while the
  general case of the same function leaves such a vector out.
\<close>

theorem addVectors_empty_keeps_zero_timestamp:
  "merged [\<lparr>Timestamp = 0, Value = 5\<rparr>] [] = [\<lparr>Timestamp = 0, Value = 5\<rparr>]
   \<and> merged [] [\<lparr>Timestamp = 0, Value = 5\<rparr>] = [\<lparr>Timestamp = 0, Value = 5\<rparr>]
   \<and> merged [\<lparr>Timestamp = 0, Value = 5\<rparr>, \<lparr>Timestamp = 101, Value = 1\<rparr>] [\<lparr>Timestamp = 99, Value = 1\<rparr>]
       = [\<lparr>Timestamp = 100, Value = 2\<rparr>]"
  by (simp add: merged_def addVectors_def allocationVector_def snapInPlace_def snap_def goRound_def)

section \<open>Properties of the aggregation\<close>

lemma addVectors_req: "fst (snd (addVectors req used)) = map snapInPlace req"
  by (simp add: addVectors_def Let_def split: prod.splits)

lemma addVectors_used: "snd (snd (addVectors req used)) = map snapInPlace used"
  by (simp add: addVectors_def Let_def split: prod.splits)

lemma allocationVector_Timestamp: "Timestamp (allocationVector rm um t) = t"
  by (simp add: allocationVector_def split: option.splits)

lemma snapInPlace_fix: "snap (Timestamp v) = Timestamp v \<Longrightarrow> snapInPlace v = v"
  by (simp add: snapInPlace_def)

lemma gridPoints_snapped: "t \<in> set (gridPoints vs) \<Longrightarrow> snap t = t"
  by (auto simp: gridPoints_def snap_idem)

text \<open>
  A series that \<^verbatim>\<open>addVectors\<close> has returned is not changed when a later call
  rounds its timestamps again.
\<close>

lemma merged_snapped: "map snapInPlace (merged a b) = merged a b"
proof (cases "a = [] \<or> b = []")
  case True
  then show ?thesis
    by (auto simp: merged_empty_used merged_empty_req snapInPlace_idem)
next
  case False
  then have ne: "a \<noteq> []" "b \<noteq> []" by simp_all
  show ?thesis
    unfolding merged_general[OF ne]
    by (rule map_idI) (auto intro!: snapInPlace_fix simp: allocationVector_Timestamp gridPoints_snapped)
qed

lemma addVectors_used_snapped:
  "map snapInPlace used = used \<Longrightarrow> snd (snd (addVectors req used)) = used"
  by (simp add: addVectors_used)

lemma mergeVectors_record:
  "mergeVectors pf cp costDatum agg discount k = Inr (agg1, costDatum1) \<Longrightarrow> costDatum1 = snapRecord costDatum"
  by (auto simp: mergeVectors_def Let_def snapRecord_def addVectors_req split: sum.splits prod.splits)

lemma aggregateDatum_record:
  "aggregateDatum pf cp aggs costDatum field subfield key discount k = Inr (aggs1, costDatum1)
   \<Longrightarrow> costDatum1 = snapRecord costDatum"
  by (auto simp: aggregateDatum_def Let_def split: sum.splits prod.splits dest: mergeVectors_record)

lemma costDataLoop_records:
  "costDataLoop pf cp field subfield discount k sr costData aggs0 s0 = Inr (aggs, s, cds) \<Longrightarrow>
   cds = map (\<lambda>(name, c). (name, if isShared sr c \<or> groupKey field subfield c = None then c else snapRecord c)) costData"
proof (induction costData arbitrary: aggs0 s0 aggs s cds)
  case Nil
  then show ?case by simp
next
  case (Cons x xs)
  obtain name c where x: "x = (name, c)" by (cases x)
  show ?case
  proof (cases "isShared sr c")
    case True
    with Cons.prems obtain vs cds' where
      "costDataLoop pf cp field subfield discount k sr xs aggs0 (addTotals s0 vs) = Inr (aggs, s, cds')"
      and "cds = (name, c) # cds'"
      by (auto simp: x split: sum.splits)
    with Cons.IH True show ?thesis by (simp add: x)
  next
    case False
    show ?thesis
    proof (cases "groupKey field subfield c")
      case None
      with False Cons.prems obtain cds' where
        "costDataLoop pf cp field subfield discount k sr xs aggs0 s0 = Inr (aggs, s, cds')"
        and "cds = (name, c) # cds'"
        by (auto simp: x split: sum.splits)
      with Cons.IH None show ?thesis by (simp add: x)
    next
      case (Some key)
      with False Cons.prems obtain aggs1 c1 cds' where
        a: "aggregateDatum pf cp aggs0 c field subfield key discount k = Inr (aggs1, c1)"
        and "costDataLoop pf cp field subfield discount k sr xs aggs1 s0 = Inr (aggs, s, cds')"
        and "cds = (name, c1) # cds'"
        by (auto simp: x split: sum.splits)
      with Cons.IH Some False aggregateDatum_record[OF a] show ?thesis by (simp add: x)
    qed
  qed
qed

lemma foldl_add_shift:
  "foldl (\<lambda>t x. t + f x) (a::float64) xs = a + foldl (\<lambda>t x. t + f x) 0 xs"
proof (induction xs arbitrary: a)
  case Nil
  then show ?case by simp
next
  case (Cons x xs)
  have "foldl (\<lambda>t x. t + f x) (a + f x) xs = (a + f x) + foldl (\<lambda>t x. t + f x) 0 xs"
    by (rule Cons.IH)
  moreover have "foldl (\<lambda>t x. t + f x) (0 + f x) xs = (0 + f x) + foldl (\<lambda>t x. t + f x) 0 xs"
    by (rule Cons.IH)
  ultimately show ?case by (simp add: add.assoc)
qed

lemma addTotals_shift: "addTotals r vs = r + addTotals 0 vs"
proof -
  obtain cpuv ramv gpuv pvvs where vs: "vs = (cpuv, ramv, gpuv, pvvs)" by (cases vs) auto
  show ?thesis
    unfolding vs addTotals_def prod.case
    by (subst foldl_add_shift, subst (2) foldl_add_shift) (simp add: add.assoc)
qed

lemma costDataLoop_shared:
  "costDataLoop pf cp field subfield discount k sr costData aggs0 s0 = Inr (aggs, s, cds) \<Longrightarrow>
   s = s0 + sharedPoolTotal pf cp discount k sr costData"
proof (induction costData arbitrary: aggs0 s0 aggs s cds)
  case Nil
  then show ?case by (simp add: sharedPoolTotal_def)
next
  case (Cons x xs)
  obtain name c where x: "x = (name, c)" by (cases x)
  show ?case
  proof (cases "isShared sr c")
    case True
    with Cons.prems obtain vs cds' where
      g: "getPriceVectors pf cp c discount k = Inr vs"
      and l: "costDataLoop pf cp field subfield discount k sr xs aggs0 (addTotals s0 vs) = Inr (aggs, s, cds')"
      by (auto simp: x split: sum.splits)
    from Cons.IH[OF l] have "s = addTotals s0 vs + sharedPoolTotal pf cp discount k sr xs" .
    moreover have "addTotals s0 vs = s0 + recordCost pf cp discount k c"
      by (simp add: recordCost_def g addTotals_shift[of s0])
    ultimately show ?thesis using True by (simp add: x sharedPoolTotal_def add.assoc)
  next
    case False
    show ?thesis
    proof (cases "groupKey field subfield c")
      case None
      with False Cons.prems obtain cds' where
        "costDataLoop pf cp field subfield discount k sr xs aggs0 s0 = Inr (aggs, s, cds')"
        by (auto simp: x split: sum.splits)
      from Cons.IH[OF this] False show ?thesis by (simp add: x sharedPoolTotal_def)
    next
      case (Some key)
      with False Cons.prems obtain aggs1 c1 cds' where
        "costDataLoop pf cp field subfield discount k sr xs aggs1 s0 = Inr (aggs, s, cds')"
        by (auto simp: x split: sum.splits)
      from Cons.IH[OF this] False show ?thesis by (simp add: x sharedPoolTotal_def)
    qed
  qed
qed

lemma update_not_Nil: "AList.update k v xs \<noteq> []"
  by (cases xs) auto

lemma aggregateDatum_keys:
  "aggregateDatum pf cp aggs0 c field subfield key discount k = Inr (aggs1, c1) \<Longrightarrow>
   (distinct (map fst aggs0) \<longrightarrow> distinct (map fst aggs1)) \<and> aggs1 \<noteq> []"
  by (auto simp: aggregateDatum_def Let_def distinct_update update_not_Nil split: sum.splits option.splits)

lemma costDataLoop_groups:
  "costDataLoop pf cp field subfield discount k sr costData aggs0 s0 = Inr (aggs, s, cds) \<Longrightarrow>
   (distinct (map fst aggs0) \<longrightarrow> distinct (map fst aggs)) \<and>
   (aggs = [] \<longleftrightarrow> aggs0 = [] \<and> list_all (\<lambda>(name, c). isShared sr c \<or> groupKey field subfield c = None) costData)"
proof (induction costData arbitrary: aggs0 s0 aggs s cds)
  case Nil
  then show ?case by simp
next
  case (Cons x xs)
  obtain name c where x: "x = (name, c)" by (cases x)
  show ?case
  proof (cases "isShared sr c")
    case True
    with Cons.prems obtain vs cds' where
      l: "costDataLoop pf cp field subfield discount k sr xs aggs0 (addTotals s0 vs) = Inr (aggs, s, cds')"
      by (auto simp: x split: sum.splits)
    from Cons.IH[OF l] True show ?thesis by (simp add: x)
  next
    case False
    show ?thesis
    proof (cases "groupKey field subfield c")
      case None
      with False Cons.prems obtain cds' where
        "costDataLoop pf cp field subfield discount k sr xs aggs0 s0 = Inr (aggs, s, cds')"
        by (auto simp: x split: sum.splits)
      from Cons.IH[OF this] None show ?thesis by (simp add: x)
    next
      case (Some key)
      with False Cons.prems obtain aggs1 c1 cds' where
        a: "aggregateDatum pf cp aggs0 c field subfield key discount k = Inr (aggs1, c1)"
        and l: "costDataLoop pf cp field subfield discount k sr xs aggs1 s0 = Inr (aggs, s, cds')"
        by (auto simp: x split: sum.splits)
      from Cons.IH[OF l] aggregateDatum_keys[OF a] Some False show ?thesis by (simp add: x)
    qed
  qed
qed

text \<open>
  Claim C5. When \<^verbatim>\<open>AggregateCostModel\<close> returns, its groups have distinct keys,
  so their number \<open>N\<close> is the length of the result; every group's
  \<^verbatim>\<open>SharedCost\<close> is the shared pool divided by \<open>N\<close> and its
  \<^verbatim>\<open>TotalCost\<close> is the sum of its four costs and its shared cost. The result has
  no group at all exactly when every record is shared or resolves to no key: then no
  aggregation exists that could carry a share of the pool.
\<close>

theorem AggregateCostModel_shared_cost:
  assumes "AggregateCostModel pf cp costData field subfield timeSeries discount k sr = Inr (aggs, cds)"
  shows "distinct (map fst aggs)
    \<and> list_all (\<lambda>(key, agg).
          SharedCost agg = sharedPoolTotal pf cp discount k sr costData / Finite (real (length aggs))
          \<and> TotalCost agg = CPUCost agg + RAMCost agg + GPUCost agg + PVCost agg + SharedCost agg) aggs
    \<and> (aggs = [] \<longleftrightarrow> list_all (\<lambda>(name, c). isShared sr c \<or> groupKey field subfield c = None) costData)"
proof -
  from assms obtain groups s where
    l: "costDataLoop pf cp field subfield discount k sr costData [] 0 = Inr (groups, s, cds)"
    and aggs: "aggs = map (\<lambda>(key, agg). (key, finishAggregation timeSeries s (length groups) agg)) groups"
    by (auto simp: AggregateCostModel_def split: sum.splits)
  have s: "s = sharedPoolTotal pf cp discount k sr costData"
    using costDataLoop_shared[OF l] by simp
  have g: "distinct (map fst groups)"
    and e: "groups = [] \<longleftrightarrow> list_all (\<lambda>(name, c). isShared sr c \<or> groupKey field subfield c = None) costData"
    using costDataLoop_groups[OF l] by simp_all
  have fst_aggs: "map fst aggs = map fst groups"
    by (simp add: aggs case_prod_unfold comp_def)
  have "distinct (map fst aggs)" using g by (simp only: fst_aggs)
  moreover have "list_all (\<lambda>(key, agg).
          SharedCost agg = sharedPoolTotal pf cp discount k sr costData / Finite (real (length aggs))
          \<and> TotalCost agg = CPUCost agg + RAMCost agg + GPUCost agg + PVCost agg + SharedCost agg) aggs"
  proof -
    have "SharedCost (finishAggregation timeSeries s n agg) = s / Finite (real n)
        \<and> TotalCost (finishAggregation timeSeries s n agg)
          = CPUCost (finishAggregation timeSeries s n agg) + RAMCost (finishAggregation timeSeries s n agg)
            + GPUCost (finishAggregation timeSeries s n agg) + PVCost (finishAggregation timeSeries s n agg)
            + SharedCost (finishAggregation timeSeries s n agg)" for n agg
      by (simp add: finishAggregation_def Let_def)
    then show ?thesis
      unfolding aggs s [symmetric] by (simp add: list_all_iff case_prod_unfold del: One_nat_def)
  qed
  moreover have "aggs = [] \<longleftrightarrow> list_all (\<lambda>(name, c). isShared sr c \<or> groupKey field subfield c = None) costData"
    using e by (simp add: aggs)
  ultimately show ?thesis by blast
qed

text \<open>
  The example of the specification: three groups and a shared pool of 30 give every
  group a shared cost of 10.
\<close>

theorem AggregateCostModel_shared_cost_witness:
  "AggregateCostModel pfSample providerSample
     [(''1'', containerSample ''a'' (Some (nodeSample ''1'')) [\<lparr>Timestamp = 100, Value = 1\<rparr>] []),
      (''2'', containerSample ''kube-system'' (Some (nodeSample ''1'')) [\<lparr>Timestamp = 100, Value = 30\<rparr>] []),
      (''3'', containerSample ''b'' (Some (nodeSample ''1'')) [] []),
      (''4'', containerSample ''c'' (Some (nodeSample ''1'')) [] [])]
     ''namespace'' [] False 0 1 (Some kubeSystemShared)
   = Inr ([(''a'', aggregationSample ''a'' [\<lparr>Timestamp = 100, Value = 1\<rparr>] 1 10),
           (''b'', aggregationSample ''b'' [] 0 10),
           (''c'', aggregationSample ''c'' [] 0 10)],
          [(''1'', containerSample ''a'' (Some (nodeSample ''1'')) [\<lparr>Timestamp = 100, Value = 1\<rparr>] []),
           (''2'', containerSample ''kube-system'' (Some (nodeSample ''1'')) [\<lparr>Timestamp = 100, Value = 30\<rparr>] []),
           (''3'', containerSample ''b'' (Some (nodeSample ''1'')) [] []),
           (''4'', containerSample ''c'' (Some (nodeSample ''1'')) [] [])])
   \<and> sharedPoolTotal pfSample providerSample 0 1 (Some kubeSystemShared)
       [(''1'', containerSample ''a'' (Some (nodeSample ''1'')) [\<lparr>Timestamp = 100, Value = 1\<rparr>] []),
        (''2'', containerSample ''kube-system'' (Some (nodeSample ''1'')) [\<lparr>Timestamp = 100, Value = 30\<rparr>] []),
        (''3'', containerSample ''b'' (Some (nodeSample ''1'')) [] []),
        (''4'', containerSample ''c'' (Some (nodeSample ''1'')) [] [])] = 30
   \<and> list_all (\<lambda>(key, agg). SharedCost agg = 30 / 3
                \<and> TotalCost agg = CPUCost agg + RAMCost agg + GPUCost agg + PVCost agg + SharedCost agg)
        [(''a'', aggregationSample ''a'' [\<lparr>Timestamp = 100, Value = 1\<rparr>] 1 10),
         (''b'', aggregationSample ''b'' [] 0 10),
         (''c'', aggregationSample ''c'' [] 0 10)]"
proof -
  let ?data = "[(''1'', containerSample ''a'' (Some (nodeSample ''1'')) [\<lparr>Timestamp = 100, Value = 1\<rparr>] []),
      (''2'', containerSample ''kube-system'' (Some (nodeSample ''1'')) [\<lparr>Timestamp = 100, Value = 30\<rparr>] []),
      (''3'', containerSample ''b'' (Some (nodeSample ''1'')) [] []),
      (''4'', containerSample ''c'' (Some (nodeSample ''1'')) [] [])]"
  let ?aggs = "[(''a'', aggregationSample ''a'' [\<lparr>Timestamp = 100, Value = 1\<rparr>] 1 10),
           (''b'', aggregationSample ''b'' [] 0 10),
           (''c'', aggregationSample ''c'' [] 0 10)]"
  have run: "AggregateCostModel pfSample providerSample ?data ''namespace'' [] False 0 1 (Some kubeSystemShared)
      = Inr (?aggs, ?data)"
    by code_simp
  have pool: "sharedPoolTotal pfSample providerSample 0 1 (Some kubeSystemShared) ?data = 30"
    by code_simp
  from AggregateCostModel_shared_cost[OF run] have
    "list_all (\<lambda>(key, agg).
          SharedCost agg = sharedPoolTotal pfSample providerSample 0 1 (Some kubeSystemShared) ?data / Finite (real (length ?aggs))
          \<and> TotalCost agg = CPUCost agg + RAMCost agg + GPUCost agg + PVCost agg + SharedCost agg) ?aggs"
    by blast
  then have "list_all (\<lambda>(key, agg). SharedCost agg = 30 / 3
          \<and> TotalCost agg = CPUCost agg + RAMCost agg + GPUCost agg + PVCost agg + SharedCost agg) ?aggs"
    by (simp only: pool) (simp add: numeral_float64)
  with run pool show ?thesis by blast
qed

text \<open>
  No group and a shared pool of 30: the result is the empty map, and the pool appears
  nowhere.
\<close>

lemma AggregateCostModel_no_group_example:
  "AggregateCostModel pfSample providerSample
     [(''2'', containerSample ''kube-system'' (Some (nodeSample ''1'')) [\<lparr>Timestamp = 100, Value = 30\<rparr>] [])]
     ''namespace'' [] False 0 1 (Some kubeSystemShared)
   = Inr ([], [(''2'', containerSample ''kube-system'' (Some (nodeSample ''1'')) [\<lparr>Timestamp = 100, Value = 30\<rparr>] [])])
   \<and> sharedPoolTotal pfSample providerSample 0 1 (Some kubeSystemShared)
       [(''2'', containerSample ''kube-system'' (Some (nodeSample ''1'')) [\<lparr>Timestamp = 100, Value = 30\<rparr>] [])]
     = 30"
  by code_simp

text \<open>
  Claim C8, as the code has it. When \<^verbatim>\<open>AggregateCostModel\<close> returns, the input
  records are as before except for the records it has merged into a group (not shared,
  with a group key): in the CPU, RAM and GPU allocation series of these, every non-zero
  timestamp has been overwritten by its nearest multiple of 10. No value of a series,
  no series of a volume claim and no other field of a record is changed. Being a
  function of its arguments, the model gives equal results for equal inputs visited in
  the same order.
\<close>

theorem AggregateCostModel_input_after_call:
  assumes "AggregateCostModel pf cp costData field subfield timeSeries discount k sr = Inr (aggs, cds)"
  shows "cds = map (\<lambda>(name, c). (name, if isShared sr c \<or> groupKey field subfield c = None
                                          then c else snapRecord c)) costData
    \<and> map (\<lambda>(name, c). (name, PVCData c, map Value (cdCPUAllocation c),
                           map Value (cdRAMAllocation c), map Value (GPUReq c))) cds
      = map (\<lambda>(name, c). (name, PVCData c, map Value (cdCPUAllocation c),
                           map Value (cdRAMAllocation c), map Value (GPUReq c))) costData"
proof -
  from assms obtain groups s where
    l: "costDataLoop pf cp field subfield discount k sr costData [] 0 = Inr (groups, s, cds)"
    by (auto simp: AggregateCostModel_def split: sum.splits)
  have cds: "cds = map (\<lambda>(name, c). (name, if isShared sr c \<or> groupKey field subfield c = None
                                          then c else snapRecord c)) costData"
    by (rule costDataLoop_records[OF l])
  have "map Value (map snapInPlace vs) = map Value vs" for vs
    by (simp add: comp_def snapInPlace_Value)
  then have "map (\<lambda>(name, c). (name, PVCData c, map Value (cdCPUAllocation c),
                           map Value (cdRAMAllocation c), map Value (GPUReq c))) cds
      = map (\<lambda>(name, c). (name, PVCData c, map Value (cdCPUAllocation c),
                           map Value (cdRAMAllocation c), map Value (GPUReq c))) costData"
    unfolding cds by (simp add: case_prod_unfold snapRecord_def)
  with cds show ?thesis by blast
qed

text \<open>
  A record with the CPU samples \<open>{t=104, v=2}\<close> and \<open>{t=0, v=7}\<close>, aggregated by
  namespace: the call leaves it with the samples \<open>{t=100, v=2}\<close> and \<open>{t=0, v=7}\<close>.
\<close>

theorem AggregateCostModel_input_after_call_witness:
  "AggregateCostModel pfSample providerSample
     [(''k'', containerSample ''default'' (Some (nodeSample ''1''))
                [\<lparr>Timestamp = 104, Value = 2\<rparr>, \<lparr>Timestamp = 0, Value = 7\<rparr>] [])]
     ''namespace'' [] True 0 1 None
   = Inr ([(''default'',
            (aggregationSample ''default'' [\<lparr>Timestamp = 100, Value = 2\<rparr>, \<lparr>Timestamp = 0, Value = 7\<rparr>] 9 0)
              \<lparr>CPUCostVector := [\<lparr>Timestamp = 100, Value = 2\<rparr>, \<lparr>Timestamp = 0, Value = 7\<rparr>]\<rparr>)],
          [(''k'', containerSample ''default'' (Some (nodeSample ''1''))
                     [\<lparr>Timestamp = 100, Value = 2\<rparr>, \<lparr>Timestamp = 0, Value = 7\<rparr>] [])])
   \<and> [(''k'', containerSample ''default'' (Some (nodeSample ''1''))
                [\<lparr>Timestamp = 100, Value = 2\<rparr>, \<lparr>Timestamp = 0, Value = 7\<rparr>] [])]
     = map (\<lambda>(name, c). (name, if isShared None c \<or> groupKey ''namespace'' [] c = None
                                  then c else snapRecord c))
         [(''k'', containerSample ''default'' (Some (nodeSample ''1''))
                    [\<lparr>Timestamp = 104, Value = 2\<rparr>, \<lparr>Timestamp = 0, Value = 7\<rparr>] [])]"
proof -
  have run: "AggregateCostModel pfSample providerSample
     [(''k'', containerSample ''default'' (Some (nodeSample ''1''))
                [\<lparr>Timestamp = 104, Value = 2\<rparr>, \<lparr>Timestamp = 0, Value = 7\<rparr>] [])]
     ''namespace'' [] True 0 1 None
   = Inr ([(''default'',
            (aggregationSample ''default'' [\<lparr>Timestamp = 100, Value = 2\<rparr>, \<lparr>Timestamp = 0, Value = 7\<rparr>] 9 0)
              \<lparr>CPUCostVector := [\<lparr>Timestamp = 100, Value = 2\<rparr>, \<lparr>Timestamp = 0, Value = 7\<rparr>]\<rparr>)],
          [(''k'', containerSample ''default'' (Some (nodeSample ''1''))
                     [\<lparr>Timestamp = 100, Value = 2\<rparr>, \<lparr>Timestamp = 0, Value = 7\<rparr>] [])])"
    by code_simp
  from AggregateCostModel_input_after_call[OF run] run show ?thesis by blast
qed

text \<open>
  Claim C8 as stated fails: the call overwrites the timestamp \<open>101\<close> of the record's
  CPU allocation sample by \<open>100\<close>. And the same two records of one namespace, from
  two clusters, give an aggregation with the cluster of the record that is visited
  first, so the result depends on the order in which the map is iterated.
\<close>

theorem AggregateCostModel_modifies_input_counterexample:
  "AggregateCostModel pfSample providerSample
     [(''k'', containerSample ''default'' (Some (nodeSample ''0.05'')) [\<lparr>Timestamp = 101, Value = 2\<rparr>] [])]
     ''namespace'' [] False 0 1 None
   = Inr ([(''default'', aggregationSample ''default'' [\<lparr>Timestamp = 100, Value = 2\<rparr>] (1 / 10) 0)],
          [(''k'', containerSample ''default'' (Some (nodeSample ''0.05'')) [\<lparr>Timestamp = 100, Value = 2\<rparr>] [])])
   \<and> cdCPUAllocation (containerSample ''default'' (Some (nodeSample ''0.05'')) [\<lparr>Timestamp = 100, Value = 2\<rparr>] [])
     \<noteq> cdCPUAllocation (containerSample ''default'' (Some (nodeSample ''0.05'')) [\<lparr>Timestamp = 101, Value = 2\<rparr>] [])
   \<and> AggregateCostModel pfSample providerSample
       [(''1'', containerSample ''a'' (Some (nodeSample ''1'')) [] []),
        (''2'', (containerSample ''a'' (Some (nodeSample ''1'')) [] [])\<lparr>ClusterID := ''cluster-two''\<rparr>)]
       ''namespace'' [] False 0 1 None
     = Inr ([(''a'', aggregationSample ''a'' [] 0 0)],
            [(''1'', containerSample ''a'' (Some (nodeSample ''1'')) [] []),
             (''2'', (containerSample ''a'' (Some (nodeSample ''1'')) [] [])\<lparr>ClusterID := ''cluster-two''\<rparr>)])
   \<and> AggregateCostModel pfSample providerSample
       [(''2'', (containerSample ''a'' (Some (nodeSample ''1'')) [] [])\<lparr>ClusterID := ''cluster-two''\<rparr>),
        (''1'', containerSample ''a'' (Some (nodeSample ''1'')) [] [])]
       ''namespace'' [] False 0 1 None
     = Inr ([(''a'', (aggregationSample ''a'' [] 0 0)\<lparr>Cluster := ''cluster-two''\<rparr>)],
            [(''2'', (containerSample ''a'' (Some (nodeSample ''1'')) [] [])\<lparr>ClusterID := ''cluster-two''\<rparr>),
             (''1'', containerSample ''a'' (Some (nodeSample ''1'')) [] [])])
   \<and> Cluster (aggregationSample ''a'' [] 0 0) \<noteq> ''cluster-two''"
  by code_simp

section \<open>Properties of getPriceVectors and ComputeIdleCoefficient\<close>

lemma boundClaims_Cons:
  "boundClaims (pvc # pvcs) =
     (case Volume pvc of None \<Rightarrow> boundClaims pvcs | Some v \<Rightarrow> (v, Values pvc) # boundClaims pvcs)"
  by (simp add: boundClaims_def map_filter_simps split: option.splits)

lemma pvcLoop_priced:
  "pvcLoop pf cp (parseFloat pf pvCostStr) d k pvcs =
     map (\<lambda>(volume, vals). pricedSeries perGiB (parseFloat pf (volumePriceString cp pvCostStr volume)) d k vals)
       (boundClaims pvcs)"
proof (induction pvcs)
  case Nil
  then show ?case by (simp add: boundClaims_def map_filter_simps)
next
  case (Cons pvc pvcs)
  then show ?case
    by (simp add: boundClaims_Cons pricedSeries_def expectedCost_def perGiB_def volumePriceString_def
        times_one_float64 divide_1024_float64 split: option.splits)
qed

lemma expectedCost_syntax_error:
  assumes "pf s = ErrSyntax" and "0 < k"
  shows "expectedCost (Finite a) (Finite u) (parseFloat pf s) (Finite x) (Finite k) = 0"
  using assms
  by (simp add: expectedCost_def parseFloat_def zero_float64_def one_float64_def minus_float64_def)

lemma expectedCost_range_error:
  assumes "pf s = ErrRange True" and "0 < k" and "0 < a" and "0 < u" and "x < 1"
  shows "expectedCost (Finite a) (Finite u) (parseFloat pf s) (Finite x) (Finite k) = PosInf"
  using assms
  by (simp add: expectedCost_def parseFloat_def one_float64_def minus_float64_def)

text \<open>
  Claim C4, as the code has it. For a record with node data and \<open>k > 0\<close>, every sample
  of a cost series \<^verbatim>\<open>getPriceVectors\<close> returns has the value
  \<open>allocationValue \<times> u \<times> p \<times> (1 - d) / k\<close> at the rounded timestamp, with \<open>u = 1\<close>
  for CPU and GPU and \<open>u = 1 / 1024\<^sup>3\<close> for RAM and volume claims; \<open>p\<close> is the number
  \<^verbatim>\<open>strconv.ParseFloat\<close> returns for the price string of the category. For a price
  string with a syntax error that number is zero, and so is the cost of every finite
  allocation at a finite discount. For a numeral out of range, which fails to parse as
  well, the number is an infinity, and the cost of a positive allocation at a discount
  below 1 is infinite.
\<close>

theorem getPriceVectors_cost_formula:
  assumes "0 < k" and "NodeData costDatum = Some node"
    and "priceStrings cp node = (cpuCostStr, ramCostStr, gpuCostStr, pvCostStr)"
  shows "getPriceVectors pf cp costDatum d (Finite k) =
      Inr (pricedSeries 1 (parseFloat pf cpuCostStr) d (Finite k) (cdCPUAllocation costDatum),
           pricedSeries perGiB (parseFloat pf ramCostStr) d (Finite k) (cdRAMAllocation costDatum),
           pricedSeries 1 (parseFloat pf gpuCostStr) d (Finite k) (GPUReq costDatum),
           map (\<lambda>(volume, vals).
                  pricedSeries perGiB (parseFloat pf (volumePriceString cp pvCostStr volume)) d (Finite k) vals)
             (boundClaims (PVCData costDatum)))
    \<and> (\<forall>s a u x. pf s = ErrSyntax \<longrightarrow>
          expectedCost (Finite a) (Finite u) (parseFloat pf s) (Finite x) (Finite k) = 0)
    \<and> (\<forall>s a u x. pf s = ErrRange True \<and> 0 < a \<and> 0 < u \<and> x < 1 \<longrightarrow>
          expectedCost (Finite a) (Finite u) (parseFloat pf s) (Finite x) (Finite k) = PosInf)"
proof -
  have prices: "unitPrices pf cp node =
      (parseFloat pf cpuCostStr, parseFloat pf ramCostStr, parseFloat pf gpuCostStr, parseFloat pf pvCostStr)"
    by (simp add: unitPrices_def assms(3))
  have "getPriceVectors pf cp costDatum d (Finite k) =
      Inr (pricedSeries 1 (parseFloat pf cpuCostStr) d (Finite k) (cdCPUAllocation costDatum),
           pricedSeries perGiB (parseFloat pf ramCostStr) d (Finite k) (cdRAMAllocation costDatum),
           pricedSeries 1 (parseFloat pf gpuCostStr) d (Finite k) (GPUReq costDatum),
           map (\<lambda>(volume, vals).
                  pricedSeries perGiB (parseFloat pf (volumePriceString cp pvCostStr volume)) d (Finite k) vals)
             (boundClaims (PVCData costDatum)))"
    by (simp add: getPriceVectors_def assms(2) prices pvcLoop_priced pricedSeries_def expectedCost_def
        perGiB_def times_one_float64 divide_1024_float64)
  moreover have "expectedCost (Finite a) (Finite u) (parseFloat pf s) (Finite x) (Finite k) = 0"
    if "pf s = ErrSyntax" for s a u x
    using that assms(1) by (rule expectedCost_syntax_error)
  moreover have "expectedCost (Finite a) (Finite u) (parseFloat pf s) (Finite x) (Finite k) = PosInf"
    if "pf s = ErrRange True \<and> 0 < a \<and> 0 < u \<and> x < 1" for s a u x
    using that assms(1) by (simp add: expectedCost_range_error)
  ultimately show ?thesis by blast
qed

text \<open>
  The example of the specification: allocation 2.0 at price 0.05 with discount 0.1 and
  idle coefficient 1 costs 0.09. The RAM price of the sample node has a syntax error,
  so the RAM cost of one GiB is zero; a claim of two GiB on a volume at price 1 costs
  1.8; and two units at the price \<open>1e400\<close> would cost an infinity.
\<close>

theorem getPriceVectors_cost_formula_witness:
  "(0::real) < 1
   \<and> NodeData ((containerSample ''default'' (Some (nodeSample ''0.05''))
                  [\<lparr>Timestamp = 101, Value = 2\<rparr>] [\<lparr>Timestamp = 101, Value = 1073741824\<rparr>])
                 \<lparr>PVCData := [\<lparr>Claim = ''claim'', VolumeName = ''volume'', Volume = Some \<lparr>Cost = ''1''\<rparr>,
                               Values = [\<lparr>Timestamp = 99, Value = 2147483648\<rparr>]\<rparr>]\<rparr>)
     = Some (nodeSample ''0.05'')
   \<and> priceStrings providerSample (nodeSample ''0.05'') = (''0.05'', ''n/a'', ''0'', ''0'')
   \<and> pfSample ''n/a'' = ErrSyntax
   \<and> pfSample ''1e400'' = ErrRange True
   \<and> getPriceVectors pfSample providerSample
        ((containerSample ''default'' (Some (nodeSample ''0.05''))
            [\<lparr>Timestamp = 101, Value = 2\<rparr>] [\<lparr>Timestamp = 101, Value = 1073741824\<rparr>])
           \<lparr>PVCData := [\<lparr>Claim = ''claim'', VolumeName = ''volume'', Volume = Some \<lparr>Cost = ''1''\<rparr>,
                         Values = [\<lparr>Timestamp = 99, Value = 2147483648\<rparr>]\<rparr>]\<rparr>)
        (1 / 10) (Finite 1)
     = Inr ([\<lparr>Timestamp = 100, Value = 9 / 100\<rparr>], [\<lparr>Timestamp = 100, Value = 0\<rparr>], [],
            [[\<lparr>Timestamp = 100, Value = 18 / 10\<rparr>]])
   \<and> expectedCost (Finite 1073741824) (Finite (1 / 1024 ^ 3)) (parseFloat pfSample ''n/a'')
        (Finite (1 / 10)) (Finite 1) = 0
   \<and> expectedCost (Finite 2) (Finite 1) (parseFloat pfSample ''1e400'') (Finite (1 / 10)) (Finite 1)
     = PosInf"
proof -
  let ?c = "(containerSample ''default'' (Some (nodeSample ''0.05''))
            [\<lparr>Timestamp = 101, Value = 2\<rparr>] [\<lparr>Timestamp = 101, Value = 1073741824\<rparr>])
           \<lparr>PVCData := [\<lparr>Claim = ''claim'', VolumeName = ''volume'', Volume = Some \<lparr>Cost = ''1''\<rparr>,
                         Values = [\<lparr>Timestamp = 99, Value = 2147483648\<rparr>]\<rparr>]\<rparr>"
  have k: "(0::real) < 1" by simp
  have n: "NodeData ?c = Some (nodeSample ''0.05'')" by code_simp
  have p: "priceStrings providerSample (nodeSample ''0.05'') = (''0.05'', ''n/a'', ''0'', ''0'')"
    by code_simp
  have f: "pfSample ''n/a'' = ErrSyntax" by code_simp
  have g: "pfSample ''1e400'' = ErrRange True" by code_simp
  have e: "(pricedSeries 1 (parseFloat pfSample ''0.05'') (1 / 10) (Finite 1) (cdCPUAllocation ?c),
           pricedSeries perGiB (parseFloat pfSample ''n/a'') (1 / 10) (Finite 1) (cdRAMAllocation ?c),
           pricedSeries 1 (parseFloat pfSample ''0'') (1 / 10) (Finite 1) (GPUReq ?c),
           map (\<lambda>(volume, vals).
                  pricedSeries perGiB (parseFloat pfSample (volumePriceString providerSample ''0'' volume))
                    (1 / 10) (Finite 1) vals)
             (boundClaims (PVCData ?c)))
        = ([\<lparr>Timestamp = 100, Value = 9 / 100\<rparr>], [\<lparr>Timestamp = 100, Value = 0\<rparr>], [],
            [[\<lparr>Timestamp = 100, Value = 18 / 10\<rparr>]])"
    by code_simp
  note inst = getPriceVectors_cost_formula[OF k n p, of pfSample "1 / 10"]
  have r: "getPriceVectors pfSample providerSample ?c (1 / 10) (Finite 1) =
      Inr ([\<lparr>Timestamp = 100, Value = 9 / 100\<rparr>], [\<lparr>Timestamp = 100, Value = 0\<rparr>], [],
            [[\<lparr>Timestamp = 100, Value = 18 / 10\<rparr>]])"
    using inst[THEN conjunct1] by (simp only: e)
  have z: "expectedCost (Finite 1073741824) (Finite (1 / 1024 ^ 3)) (parseFloat pfSample ''n/a'')
        (Finite (1 / 10)) (Finite 1) = 0"
    using inst[THEN conjunct2, THEN conjunct1, rule_format, OF f] .
  have "pfSample ''1e400'' = ErrRange True \<and> (0::real) < 2 \<and> (0::real) < 1 \<and> (1::real) / 10 < 1"
    using g by simp
  then have i: "expectedCost (Finite 2) (Finite 1) (parseFloat pfSample ''1e400'') (Finite (1 / 10)) (Finite 1)
     = PosInf"
    by (rule inst[THEN conjunct2, THEN conjunct2, rule_format])
  show ?thesis
    by (intro conjI k n p f g r z i)
qed

text \<open>
  Claim C4 as stated fails. The price string \<open>1e400\<close> fails to parse: it is out of
  the range of a \<^verbatim>\<open>float64\<close>. \<^verbatim>\<open>strconv.ParseFloat\<close> returns an infinity next
  to the error, and the cost of two units at that price is infinite, not zero.
\<close>

theorem getPriceVectors_range_error_counterexample:
  "pfSample ''1e400'' = ErrRange True
   \<and> getPriceVectors pfSample providerSample
        (containerSample ''default'' (Some (nodeSample ''1e400'')) [\<lparr>Timestamp = 101, Value = 2\<rparr>] [])
        (1 / 10) 1
     = Inr ([\<lparr>Timestamp = 100, Value = PosInf\<rparr>], [], [], [])
   \<and> PosInf \<noteq> (0::float64)"
  by code_simp

lemma getPriceVectors_nil_NodeData:
  "NodeData costDatum = None \<Longrightarrow> getPriceVectors pf cp costDatum d k = Inl NilPointerDereference"
  by (simp add: getPriceVectors_def)

text \<open>
  Claim C2 at a failing input: a record whose \<^verbatim>\<open>NodeData\<close> is nil.
  \<^verbatim>\<open>getPriceVectors\<close> dereferences the nil pointer, and so do both of its
  callers; the record is not skipped.
\<close>

theorem getPriceVectors_nil_NodeData_panics:
  "getPriceVectors pfSample providerSample
     (containerSample ''default'' None [\<lparr>Timestamp = 100, Value = 1\<rparr>] []) 0 1
     = Inl NilPointerDereference
   \<and> AggregateCostModel pfSample providerSample
       [(''k'', containerSample ''default'' None [\<lparr>Timestamp = 100, Value = 1\<rparr>] [])]
       ''namespace'' [] False 0 1 None
     = Inl NilPointerDereference
   \<and> AggregateCostModel pfSample providerSample
       [(''k'', containerSample ''kube-system'' None [\<lparr>Timestamp = 100, Value = 1\<rparr>] [])]
       ''namespace'' [] False 0 1 (Some kubeSystemShared)
     = Inl NilPointerDereference
   \<and> ComputeIdleCoefficient pfSample providerSample
       [(''k'', containerSample ''default'' None [\<lparr>Timestamp = 100, Value = 1\<rparr>] [])]
       0 (Some 1) (Some [[''1571'', ''1'']])
     = Inl NilPointerDereference"
  by code_simp

text \<open>
  Claim C3 at a failing input: a cluster total of zero. \<^verbatim>\<open>ComputeIdleCoefficient\<close>
  returns 0 and no error, and the handler passes this 0, not 1, on to
  \<^verbatim>\<open>AggregateCostModel\<close> as the idle coefficient. With no sample at all in the
  cluster total the function panics on \<^verbatim>\<open>totals.TotalCost[0][1]\<close>, and with a
  total that does not parse it returns 0 with the error, which the handler writes to
  the response before it goes on with the 0.
\<close>

theorem handler_zero_idle_coefficient:
  "ComputeIdleCoefficient pfSample providerSample
     [(''k'', containerSample ''default'' (Some (nodeSample ''1'')) [\<lparr>Timestamp = 100, Value = 1\<rparr>] [])]
     0 (Some 1) (Some [[''1571'', ''0'']])
     = Inr (0, None)
   \<and> handlerIdleCoefficient pfSample providerSample
       [(''k'', containerSample ''default'' (Some (nodeSample ''1'')) [\<lparr>Timestamp = 100, Value = 1\<rparr>] [])]
       0 ''true'' (Some 1) (Some [[''1571'', ''0'']])
     = Inr 0
   \<and> ComputeIdleCoefficient pfSample providerSample
       [(''k'', containerSample ''default'' (Some (nodeSample ''1'')) [\<lparr>Timestamp = 100, Value = 1\<rparr>] [])]
       0 (Some 1) (Some [])
     = Inl IndexOutOfRange
   \<and> handlerIdleCoefficient pfSample providerSample
       [(''k'', containerSample ''default'' (Some (nodeSample ''1'')) [\<lparr>Timestamp = 100, Value = 1\<rparr>] [])]
       0 ''true'' (Some 1) (Some [[''1571'', ''n/a'']])
     = Inr 0"
  by code_simp

section \<open>Properties of the handler's cache key\<close>

lemma aggKey_update:
  "aggKey (q\<lparr>qAllocateIdle := i, qSharedNamespaces := n, qSharedLabelNames := l,
             qSharedLabelValues := v\<rparr>) = aggKey q"
  by (simp add: aggKey_def)

text \<open>
  Claim C7 at failing inputs. A request that differs from \<open>querySample\<close> only in
  \<^verbatim>\<open>sharedNamespaces\<close>, or only in \<^verbatim>\<open>allocateIdle\<close>, has the same cache key.
  Served after \<open>querySample\<close>, the request with \<^verbatim>\<open>sharedNamespaces=b\<close> is
  answered from the cache with the result of \<open>querySample\<close>, although computed afresh
  its result is another one: namespace \<open>b\<close> is no group any more and its cost is the
  shared cost of \<open>a\<close>. Likewise the fresh result of the request with
  \<^verbatim>\<open>allocateIdle=true\<close>, computed with the idle coefficient 1/2, has twice the costs.
\<close>

theorem aggKey_ignores_shared_and_idle_parameters:
  "aggKey (querySample\<lparr>qSharedNamespaces := ''b''\<rparr>) = aggKey querySample
   \<and> aggKey (querySample\<lparr>qAllocateIdle := ''true''\<rparr>) = aggKey querySample
   \<and> aggKey querySample = ''aggregate:24h::::namespace::false''
   \<and> serveAggregate pfSample providerSample
        [(''1'', containerSample ''a'' (Some (nodeSample ''1'')) [\<lparr>Timestamp = 100, Value = 1\<rparr>] []),
         (''2'', containerSample ''b'' (Some (nodeSample ''1'')) [\<lparr>Timestamp = 100, Value = 2\<rparr>] [])]
        0 (Some 730) (Some [[''1571'', ''6'']]) querySample []
     = Inr (CacheMiss [(''a'', aggregationSample ''a'' [\<lparr>Timestamp = 100, Value = 1\<rparr>] 1 0),
                       (''b'', aggregationSample ''b'' [\<lparr>Timestamp = 100, Value = 2\<rparr>] 2 0)],
            [(''aggregate:24h::::namespace::false'',
              [(''a'', aggregationSample ''a'' [\<lparr>Timestamp = 100, Value = 1\<rparr>] 1 0),
               (''b'', aggregationSample ''b'' [\<lparr>Timestamp = 100, Value = 2\<rparr>] 2 0)])])
   \<and> serveAggregate pfSample providerSample
        [(''1'', containerSample ''a'' (Some (nodeSample ''1'')) [\<lparr>Timestamp = 100, Value = 1\<rparr>] []),
         (''2'', containerSample ''b'' (Some (nodeSample ''1'')) [\<lparr>Timestamp = 100, Value = 2\<rparr>] [])]
        0 (Some 730) (Some [[''1571'', ''6'']]) (querySample\<lparr>qSharedNamespaces := ''b''\<rparr>)
        [(''aggregate:24h::::namespace::false'',
          [(''a'', aggregationSample ''a'' [\<lparr>Timestamp = 100, Value = 1\<rparr>] 1 0),
           (''b'', aggregationSample ''b'' [\<lparr>Timestamp = 100, Value = 2\<rparr>] 2 0)])]
     = Inr (CacheHit [(''a'', aggregationSample ''a'' [\<lparr>Timestamp = 100, Value = 1\<rparr>] 1 0),
                      (''b'', aggregationSample ''b'' [\<lparr>Timestamp = 100, Value = 2\<rparr>] 2 0)],
            [(''aggregate:24h::::namespace::false'',
              [(''a'', aggregationSample ''a'' [\<lparr>Timestamp = 100, Value = 1\<rparr>] 1 0),
               (''b'', aggregationSample ''b'' [\<lparr>Timestamp = 100, Value = 2\<rparr>] 2 0)])])
   \<and> serveAggregate pfSample providerSample
        [(''1'', containerSample ''a'' (Some (nodeSample ''1'')) [\<lparr>Timestamp = 100, Value = 1\<rparr>] []),
         (''2'', containerSample ''b'' (Some (nodeSample ''1'')) [\<lparr>Timestamp = 100, Value = 2\<rparr>] [])]
        0 (Some 730) (Some [[''1571'', ''6'']]) (querySample\<lparr>qSharedNamespaces := ''b''\<rparr>) []
     = Inr (CacheMiss [(''a'', aggregationSample ''a'' [\<lparr>Timestamp = 100, Value = 1\<rparr>] 1 2)],
            [(''aggregate:24h::::namespace::false'',
              [(''a'', aggregationSample ''a'' [\<lparr>Timestamp = 100, Value = 1\<rparr>] 1 2)])])
   \<and> serveAggregate pfSample providerSample
        [(''1'', containerSample ''a'' (Some (nodeSample ''1'')) [\<lparr>Timestamp = 100, Value = 1\<rparr>] []),
         (''2'', containerSample ''b'' (Some (nodeSample ''1'')) [\<lparr>Timestamp = 100, Value = 2\<rparr>] [])]
        0 (Some 730) (Some [[''1571'', ''6'']]) (querySample\<lparr>qAllocateIdle := ''true''\<rparr>) []
     = Inr (CacheMiss [(''a'', aggregationSample ''a'' [\<lparr>Timestamp = 100, Value = 1\<rparr>] 2 0),
                       (''b'', aggregationSample ''b'' [\<lparr>Timestamp = 100, Value = 2\<rparr>] 4 0)],
            [(''aggregate:24h::::namespace::false'',
              [(''a'', aggregationSample ''a'' [\<lparr>Timestamp = 100, Value = 1\<rparr>] 2 0),
               (''b'', aggregationSample ''b'' [\<lparr>Timestamp = 100, Value = 2\<rparr>] 4 0)])])"
  by code_simp

section \<open>Properties of the reconciler\<close>

lemma sweepLoop_entries:
  "map_of (fst (sweepLoop del entries (seenMap, st))) k =
     (if k \<in> fst ` set entries then Some False else map_of seenMap k)"
proof (induction entries arbitrary: seenMap st)
  case Nil
  then show ?case by simp
next
  case (Cons e entries)
  obtain labelString seen where e: "e = (labelString, seen)" by (cases e)
  define seenMap1 where
    "seenMap1 = AList.update labelString False (if \<not> seen then AList.delete labelString seenMap else seenMap)"
  define st1 where
    "st1 = (if \<not> seen then del (getLabelStringsFromKey labelString) st else st)"
  have step: "sweepLoop del (e # entries) (seenMap, st) = sweepLoop del entries (seenMap1, st1)"
    by (simp add: e seenMap1_def st1_def)
  have "map_of seenMap1 k = (if k = labelString then Some False else map_of seenMap k)"
    by (simp add: seenMap1_def update_conv' delete_conv')
  with Cons.IH[of seenMap1 st1] show ?case
    unfolding step by (cases "k = labelString") (auto simp: e)
qed

lemma sweepLoop_frame:
  assumes "\<And>labels s. f (del labels s) = f s"
  shows "f (snd (sweepLoop del entries (seenMap, st))) = f st"
proof (induction entries arbitrary: seenMap st)
  case Nil
  then show ?case by simp
next
  case (Cons e entries)
  obtain labelString seen where e: "e = (labelString, seen)" by (cases e)
  show ?case
    unfolding e by (simp add: Cons.IH assms split: prod.splits)
qed

text \<open>
  A sweep removes no entry of the node tracking map: every key it has before the sweep
  it has after it, with the flag false.
\<close>

lemma sweep_nodeSeen:
  "map_of (nodeSeen (sweep st)) k = (if k \<in> fst ` set (nodeSeen st) then Some False else None)"
proof -
  obtain nodes st1 where n: "sweepLoop deleteNode (nodeSeen st) (nodeSeen st, st) = (nodes, st1)"
    by (cases "sweepLoop deleteNode (nodeSeen st) (nodeSeen st, st)")
  define st2 where "st2 = st1\<lparr>nodeSeen := nodes\<rparr>"
  obtain containers st3 where
    c: "sweepLoop deleteContainer (containerSeen st2) (containerSeen st2, st2) = (containers, st3)"
    by (cases "sweepLoop deleteContainer (containerSeen st2) (containerSeen st2, st2)")
  define st4 where "st4 = st3\<lparr>containerSeen := containers\<rparr>"
  obtain pvs st5 where p: "sweepLoop deletePV (pvSeen st4) (pvSeen st4, st4) = (pvs, st5)"
    by (cases "sweepLoop deletePV (pvSeen st4) (pvSeen st4, st4)")
  define st6 where "st6 = st5\<lparr>pvSeen := pvs\<rparr>"
  obtain pvcs st7 where q: "sweepLoop deletePVC (pvcSeen st6) (pvcSeen st6, st6) = (pvcs, st7)"
    by (cases "sweepLoop deletePVC (pvcSeen st6) (pvcSeen st6, st6)")
  have result: "sweep st = st7\<lparr>pvcSeen := pvcs\<rparr>"
    by (simp only: sweep_def Let_def n prod.case st2_def [symmetric] c st4_def [symmetric] p
        st6_def [symmetric] q)
  have "nodeSeen st3 = nodeSeen st2"
    using sweepLoop_frame[of nodeSeen deleteContainer "containerSeen st2" "containerSeen st2" st2] c
    by (simp add: deleteContainer_def)
  moreover have "nodeSeen st5 = nodeSeen st4"
    using sweepLoop_frame[of nodeSeen deletePV "pvSeen st4" "pvSeen st4" st4] p
    by (simp add: deletePV_def)
  moreover have "nodeSeen st7 = nodeSeen st6"
    using sweepLoop_frame[of nodeSeen deletePVC "pvcSeen st6" "pvcSeen st6" st6] q
    by (simp add: deletePVC_def)
  ultimately have "nodeSeen (sweep st) = nodes"
    by (simp add: result st2_def st4_def st6_def)
  moreover have "nodes = fst (sweepLoop deleteNode (nodeSeen st) (nodeSeen st, st))"
    by (simp add: n)
  ultimately show ?thesis
    by (auto simp: sweepLoop_entries map_of_eq_None_iff)
qed

text \<open>
  Claim C6 at a failing input: a node and a container that the first cycle sees and the
  second cycle does not. After the sweep of the second cycle the series of the node and
  the allocation series of the container are deleted, but every tracking map still has
  the entry, with the flag false: the assignment that follows the \<^verbatim>\<open>delete\<close>
  stores the key again. The uptime series of the container is still exported as well:
  it has three labels and is asked to be deleted with the five of the container key.
\<close>

theorem sweep_keeps_tracking_entry:
  "recordPricesCycle pfSample (\<lambda>class region parameters pv. ''0'') cycleOne startState
     = Inr \<lparr>CPUPriceRecorder = [([''node'', ''node''], 1)],
            RAMPriceRecorder = [([''node'', ''node''], 0)],
            PersistentVolumePriceRecorder = [],
            GPUPriceRecorder = [([''node'', ''node''], 0)],
            NodeTotalPriceRecorder = [([''node'', ''node''], 1)],
            RAMAllocationRecorder = [],
            CPUAllocationRecorder = [([''default'', ''pod'', ''container'', ''node'', ''node''], 1)],
            GPUAllocationRecorder = [], PVAllocationRecorder = [],
            ContainerUptimeRecorder = [([''default'', ''pod'', ''container''], 60)],
            containerSeen = [(''default,pod,container,node,node'', False)],
            nodeSeen = [(''node,node'', False)], pvSeen = [], pvcSeen = []\<rparr>
   \<and> recordPricesCycle pfSample (\<lambda>class region parameters pv. ''0'') cycleTwo
       \<lparr>CPUPriceRecorder = [([''node'', ''node''], 1)],
        RAMPriceRecorder = [([''node'', ''node''], 0)],
        PersistentVolumePriceRecorder = [],
        GPUPriceRecorder = [([''node'', ''node''], 0)],
        NodeTotalPriceRecorder = [([''node'', ''node''], 1)],
        RAMAllocationRecorder = [],
        CPUAllocationRecorder = [([''default'', ''pod'', ''container'', ''node'', ''node''], 1)],
        GPUAllocationRecorder = [], PVAllocationRecorder = [],
        ContainerUptimeRecorder = [([''default'', ''pod'', ''container''], 60)],
        containerSeen = [(''default,pod,container,node,node'', False)],
        nodeSeen = [(''node,node'', False)], pvSeen = [], pvcSeen = []\<rparr>
     = Inr \<lparr>CPUPriceRecorder = [], RAMPriceRecorder = [], PersistentVolumePriceRecorder = [],
            GPUPriceRecorder = [], NodeTotalPriceRecorder = [], RAMAllocationRecorder = [],
            CPUAllocationRecorder = [], GPUAllocationRecorder = [], PVAllocationRecorder = [],
            ContainerUptimeRecorder = [([''default'', ''pod'', ''container''], 60)],
            containerSeen = [(''default,pod,container,node,node'', False)],
            nodeSeen = [(''node,node'', False)], pvSeen = [], pvcSeen = []\<rparr>"
  by code_simp

text \<open>
  Claim C9 at a failing input: a record with a volume claim that has a volume and an
  empty \<^verbatim>\<open>Values\<close> series. The cycle panics on \<^verbatim>\<open>pvc.Values[0]\<close>. (A
  persistent volume whose storage class is not known does not stop the cycle: its
  price is recorded from empty parameters.)
\<close>

theorem recordPrices_empty_claim_series_panics:
  "recordPricesCycle pfSample (\<lambda>class region parameters pv. ''0'')
     (cycleOne\<lparr>cycleData :=
        [(''1'', (containerSample ''default'' (Some (nodeSample ''1'')) [\<lparr>Timestamp = 100, Value = 1\<rparr>] [])
                   \<lparr>PVCData := [\<lparr>Claim = ''claim'', VolumeName = ''volume'',
                                 Volume = Some \<lparr>Cost = ''1''\<rparr>, Values = []\<rparr>]\<rparr>)]\<rparr>)
     startState
     = Inl IndexOutOfRange
   \<and> (case recordPricesCycle pfSample
              (\<lambda>class region parameters pv. if parameters = [] then ''1'' else ''0'')
              (cycleOne\<lparr>persistentVolumes :=
                 [\<lparr>pvName = ''pv'', pvStorageClassName = ''missing'', pvRegion = []\<rparr>]\<rparr>)
              startState of
         Inl p \<Rightarrow> None
       | Inr st \<Rightarrow> map_of (PersistentVolumePriceRecorder st) [''pv'', ''pv''])
     = Some 1"
  by code_simp

end
